theory Spec2Isabelle
  imports Complex_Main "HOL-Library.Log_Nat" "HOL-Library.AList"
begin

section \<open>Python values\<close>

text \<open>
  A Python \<^verbatim>\<open>float\<close> is a binary64 number: a finite value (kept as the rational it
  denotes), an infinity or NaN. The sign of zero is not kept; no modelled operation
  observes it.
\<close>

datatype pyfloat = Fin rat | PInf | NInf | NaN

text \<open>
  The body of a request is the value \<^verbatim>\<open>request.json\<close> has: a JSON integer is a Python
  \<^verbatim>\<open>int\<close>, a number with a fraction or exponent a \<^verbatim>\<open>float\<close>, an object a
  \<^verbatim>\<open>dict\<close> (its items as an association list, looked up with \<open>map_of\<close>).
\<close>

datatype json =
    JNull
  | JBool bool
  | JInt int
  | JFloat pyfloat
  | JStr string
  | JArr "json list"
  | JObj "(string \<times> json) list"

text \<open>The exceptions the modelled code can raise, each with the text \<^verbatim>\<open>str(e)\<close> gives.\<close>

datatype exn =
    ValueError string
  | TypeError string
  | AttributeError string
  | OverflowError string
  | ZeroDivisionError string
  | DBAPIError string

fun str_exn :: "exn \<Rightarrow> string" where
  "str_exn (ValueError m) = m"
| "str_exn (TypeError m) = m"
| "str_exn (AttributeError m) = m"
| "str_exn (OverflowError m) = m"
| "str_exn (ZeroDivisionError m) = m"
| "str_exn (DBAPIError m) = m"

type_synonym datetime = nat

text \<open>
  What the code takes from outside the repository, as parameters: how \<^verbatim>\<open>float()\<close> and
  \<^verbatim>\<open>int()\<close> read a string (\<open>None\<close>: the string is rejected), \<^verbatim>\<open>repr\<close> of a string
  (used in error messages only), \<^verbatim>\<open>datetime.fromisoformat\<close>, the clock reading
  \<^verbatim>\<open>datetime.utcnow()\<close> of the request, and what the database driver does with a value
  that is neither a string nor \<^verbatim>\<open>None\<close> when it is bound to a text column (it stores a
  text, as SQLite does with a number, or raises). What the driver does with a number
  bound to a number column is modelled in full, below.
\<close>

record env =
  float_of_str :: "string \<Rightarrow> pyfloat option"
  int_of_str :: "string \<Rightarrow> int option"
  repr_str :: "string \<Rightarrow> string"
  fromisoformat :: "string \<Rightarrow> datetime option"
  utcnow :: datetime
  driver_text :: "json \<Rightarrow> exn + string"

fun type_name :: "json \<Rightarrow> string" where
  "type_name JNull = ''NoneType''"
| "type_name (JBool _) = ''bool''"
| "type_name (JInt _) = ''int''"
| "type_name (JFloat _) = ''float''"
| "type_name (JStr _) = ''str''"
| "type_name (JArr _) = ''list''"
| "type_name (JObj _) = ''dict''"

text \<open>Truth value of a Python object, as \<^verbatim>\<open>if x\<close> and \<^verbatim>\<open>x or y\<close> test it.\<close>

fun truthy :: "json \<Rightarrow> bool" where
  "truthy JNull = False"
| "truthy (JBool b) = b"
| "truthy (JInt n) = (n \<noteq> 0)"
| "truthy (JFloat f) = (f \<noteq> Fin 0)"
| "truthy (JStr s) = (s \<noteq> [])"
| "truthy (JArr xs) = (xs \<noteq> [])"
| "truthy (JObj kvs) = (kvs \<noteq> [])"

text \<open>\<^verbatim>\<open>x or y\<close>\<close>

definition py_or :: "json \<Rightarrow> json \<Rightarrow> json" where
  "py_or x y = (if truthy x then x else y)"

text \<open>\<^verbatim>\<open>d.get(k)\<close> and \<^verbatim>\<open>d.get(k, default)\<close> on a dict.\<close>

definition dict_get :: "(string \<times> json) list \<Rightarrow> string \<Rightarrow> json" where
  "dict_get d k = (case map_of d k of None \<Rightarrow> JNull | Some v \<Rightarrow> v)"

definition dict_get_default :: "(string \<times> json) list \<Rightarrow> string \<Rightarrow> json \<Rightarrow> json" where
  "dict_get_default d k dflt = (case map_of d k of None \<Rightarrow> dflt | Some v \<Rightarrow> v)"

text \<open>
  \<^verbatim>\<open>x.get(k, default)\<close> on any value: only a dict has the method.
\<close>

text \<open>A text between single quotes, as Python's messages show a type or attribute name.\<close>

definition quoted :: "string \<Rightarrow> string" where
  "quoted s = [CHR 0x27] @ s @ [CHR 0x27]"

definition no_attribute :: "json \<Rightarrow> string \<Rightarrow> exn" where
  "no_attribute v a =
     AttributeError (quoted (type_name v) @ '' object has no attribute '' @ quoted a)"

fun py_get :: "json \<Rightarrow> string \<Rightarrow> json \<Rightarrow> exn + json" where
  "py_get (JObj d) k dflt = Inr (dict_get_default d k dflt)"
| "py_get v k dflt = Inl (no_attribute v ''get'')"

text \<open>
  \<^verbatim>\<open>for x in v\<close>: a list gives its elements, a string its characters, a dict its keys;
  nothing else can be iterated.
\<close>

fun py_iter :: "json \<Rightarrow> exn + json list" where
  "py_iter (JArr xs) = Inr xs"
| "py_iter (JStr s) = Inr (map (\<lambda>c. JStr [c]) s)"
| "py_iter (JObj kvs) = Inr (map (\<lambda>kv. JStr (fst kv)) kvs)"
| "py_iter v = Inl (TypeError (quoted (type_name v) @ '' object is not iterable''))"

subsection \<open>Rounding to binary64\<close>

text \<open>\<open>floor_log2 r\<close> is \<open>\<lfloor>log\<^sub>2 r\<rfloor>\<close> for a positive rational.\<close>

definition floor_log2 :: "rat \<Rightarrow> int" where
  "floor_log2 r =
     (let (p, q) = quotient_of r; e = bitlen p - bitlen q
      in if 2 powi e \<le> r then e else e - 1)"

definition round_half_even :: "rat \<Rightarrow> int" where
  "round_half_even r =
     (let f = \<lfloor>r\<rfloor>; d = r - of_int f
      in if d < 1 / 2 then f else if 1 / 2 < d then f + 1 else if even f then f else f + 1)"

text \<open>
  The binary64 number nearest to a rational (ties to even): 53 significant bits, the
  smallest exponent that of the subnormals, an infinity beyond the largest finite value.
\<close>

definition binary64 :: "rat \<Rightarrow> pyfloat" where
  "binary64 r =
     (if r = 0 then Fin 0
      else let a = \<bar>r\<bar>;
               q = max (floor_log2 a) (- 1022) - 52;
               v = of_int (round_half_even (a / 2 powi q)) * 2 powi q
           in if 2 ^ 1024 \<le> v then (if 0 < r then PInf else NInf)
              else Fin (if 0 < r then v else - v))"

subsection \<open>\<^verbatim>\<open>float()\<close> and \<^verbatim>\<open>int()\<close>\<close>

definition float_of_int :: "int \<Rightarrow> exn + pyfloat" where
  "float_of_int n =
     (case binary64 (of_int n) of
        Fin r \<Rightarrow> Inr (Fin r)
      | _ \<Rightarrow> Inl (OverflowError ''int too large to convert to float''))"

fun py_float :: "env \<Rightarrow> json \<Rightarrow> exn + pyfloat" where
  "py_float env (JFloat f) = Inr f"
| "py_float env (JInt n) = float_of_int n"
| "py_float env (JBool b) = Inr (Fin (if b then 1 else 0))"
| "py_float env (JStr s) =
     (case float_of_str env s of
        Some f \<Rightarrow> Inr f
      | None \<Rightarrow> Inl (ValueError (''could not convert string to float: '' @ repr_str env s)))"
| "py_float env v =
     Inl (TypeError (''float() argument must be a string or a real number, not ''
                     @ quoted (type_name v)))"

text \<open>\<^verbatim>\<open>int(x)\<close> of a float truncates towards zero.\<close>

definition trunc :: "rat \<Rightarrow> int" where
  "trunc r = (if 0 \<le> r then \<lfloor>r\<rfloor> else \<lceil>r\<rceil>)"

fun int_of_float :: "pyfloat \<Rightarrow> exn + int" where
  "int_of_float (Fin r) = Inr (trunc r)"
| "int_of_float NaN = Inl (ValueError ''cannot convert float NaN to integer'')"
| "int_of_float f = Inl (OverflowError ''cannot convert float infinity to integer'')"

fun py_int :: "env \<Rightarrow> json \<Rightarrow> exn + int" where
  "py_int env (JInt n) = Inr n"
| "py_int env (JBool b) = Inr (if b then 1 else 0)"
| "py_int env (JFloat f) = int_of_float f"
| "py_int env (JStr s) =
     (case int_of_str env s of
        Some n \<Rightarrow> Inr n
      | None \<Rightarrow> Inl (ValueError (''invalid literal for int() with base 10: '' @ repr_str env s)))"
| "py_int env v =
     Inl (TypeError (''int() argument must be a string, a bytes-like object or a real number, not ''
                     @ quoted (type_name v)))"

section \<open>The store\<close>

text \<open>
  The tables of \<^verbatim>\<open>models.py\<close> that the modelled endpoints read and write, rows in
  insertion order. A nullable column is an \<open>option\<close>. The store is the database that
  \<^verbatim>\<open>app.py\<close> opens when \<^verbatim>\<open>OAKS_DB\<close> is not set (line 19), the SQLite file
  \<^verbatim>\<open>oaks.db\<close>: an \<^verbatim>\<open>Integer\<close> column holds a signed 64-bit number, and a \<^verbatim>\<open>Float\<close>
  column a binary64 number or an infinity, a NaN being stored as \<^verbatim>\<open>NULL\<close>.
  \<^verbatim>\<open>Product.created_at\<close> and the id, the transaction and the \<^verbatim>\<open>qty\<close> of a line are
  not optional: the only code that inserts such rows sets them. Row ids stay far below
  the end of the 64-bit range.
\<close>

record product =
  p_id :: int
  p_barcode :: string
  p_name :: "string option"
  p_price :: "pyfloat option"
  p_cost :: "pyfloat option"
  p_qty :: "int option"
  p_is_new :: "bool option"
  p_created_at :: datetime

record transaction =
  t_id :: int
  t_created_at :: datetime
  t_total :: "pyfloat option"
  t_payment_type :: "string option"
  t_synced :: bool

record transaction_line =
  l_id :: int
  l_transaction_id :: int
  l_barcode :: "string option"
  l_name :: "string option"
  l_qty :: int
  l_price :: "pyfloat option"
  l_cost :: "pyfloat option"

record db =
  products :: "product list"
  transactions :: "transaction list"
  transaction_lines :: "transaction_line list"

text \<open>
  The primary key a new row gets (SQLite's rowid of an \<^verbatim>\<open>INTEGER PRIMARY KEY\<close>): one
  more than the largest in the table, 1 in an empty table.
\<close>

definition new_id :: "int list \<Rightarrow> int" where
  "new_id ids = (if ids = [] then 1 else fold max ids (hd ids) + 1)"

text \<open>
  A Python \<^verbatim>\<open>int\<close> bound to an \<^verbatim>\<open>Integer\<close> column: the driver (\<^verbatim>\<open>sqlite3\<close>) takes a
  number of the signed 64-bit range and raises \<^verbatim>\<open>OverflowError\<close> on any other, when the
  statement is executed.
\<close>

definition int64 :: "int \<Rightarrow> bool" where
  "int64 n \<longleftrightarrow> - (2 ^ 63) \<le> n \<and> n < 2 ^ 63"

definition sql_int :: "int \<Rightarrow> exn + int" where
  "sql_int n =
     (if int64 n then Inr n
      else Inl (OverflowError ''Python int too large to convert to SQLite INTEGER''))"

text \<open>A Python \<^verbatim>\<open>float\<close> bound to a \<^verbatim>\<open>Float\<close> column: SQLite stores a NaN as \<^verbatim>\<open>NULL\<close>.\<close>

fun sql_real :: "pyfloat \<Rightarrow> pyfloat option" where
  "sql_real NaN = None"
| "sql_real f = Some f"

text \<open>
  A Python value bound to a \<^verbatim>\<open>String\<close> column or compared with one in a query.
\<close>

fun sql_text :: "env \<Rightarrow> json \<Rightarrow> exn + string option" where
  "sql_text env JNull = Inr None"
| "sql_text env (JStr s) = Inr (Some s)"
| "sql_text env v = (case driver_text env v of Inl e \<Rightarrow> Inl e | Inr s \<Rightarrow> Inr (Some s))"

text \<open>
  \<^verbatim>\<open>Product.query.filter_by(barcode=b).first()\<close>; no row has a null barcode.
\<close>

fun find_product :: "string option \<Rightarrow> product list \<Rightarrow> product option" where
  "find_product None ps = None"
| "find_product (Some b) ps = find (\<lambda>p. p_barcode p = b) ps"

text \<open>Writing back the row that \<open>find_product\<close> returned.\<close>

fun update_product :: "string \<Rightarrow> (product \<Rightarrow> product) \<Rightarrow> product list \<Rightarrow> product list" where
  "update_product b f [] = []"
| "update_product b f (p # ps) = (if p_barcode p = b then f p # ps else p # update_product b f ps)"

text \<open>\<^verbatim>\<open>prod.qty or 0\<close>\<close>

definition qty_or_0 :: "product \<Rightarrow> int" where
  "qty_or_0 p = (case p_qty p of None \<Rightarrow> 0 | Some q \<Rightarrow> q)"

section \<open>The sync endpoint\<close>

text \<open>
  An entry of \<^verbatim>\<open>ack\<close>: a dict with the keys \<^verbatim>\<open>local_id\<close> and \<^verbatim>\<open>status\<close> and
  either \<^verbatim>\<open>server_id\<close> or \<^verbatim>\<open>error\<close>; \<open>None\<close> is a key the dict does not have.
\<close>

record ack_entry =
  local_id :: json
  status :: string
  server_id :: "int option"
  error :: "string option"

text \<open>
  \<^verbatim>\<open>updated_products\<close>: a dict from barcode to \<^verbatim>\<open>prod.to_dict()\<close>, in insertion order;
  a key written again keeps its place (\<open>AList.update\<close>). \<^verbatim>\<open>to_dict\<close> copies the
  columns, so a snapshot is a \<open>product\<close>.
\<close>

type_synonym snapshots = "(string \<times> product) list"

record response =
  ok :: bool
  ack :: "ack_entry list"
  updated_products :: "product list"

text \<open>
  Lines 227-233: \<^verbatim>\<open>createdAt\<close> is parsed when it is truthy; whatever goes wrong there
  (a text that is no ISO date, a value that is no string) gives the clock reading, as
  does an absent or falsy \<^verbatim>\<open>createdAt\<close>.
\<close>

definition parse_created_at :: "env \<Rightarrow> (string \<times> json) list \<Rightarrow> datetime" where
  "parse_created_at env tx =
     (let c = dict_get tx ''createdAt''
      in if truthy c
         then (case c of
                 JStr s \<Rightarrow> (case fromisoformat env s of Some d \<Rightarrow> d | None \<Rightarrow> utcnow env)
               | _ \<Rightarrow> utcnow env)
         else utcnow env)"

text \<open>Sequencing: the first exception raised ends the computation.\<close>

definition and_then :: "exn + 'a \<Rightarrow> ('a \<Rightarrow> exn + 'b) \<Rightarrow> exn + 'b" where
  "and_then m f = (case m of Inl e \<Rightarrow> Inl e | Inr x \<Rightarrow> f x)"

text \<open>
  A stock count that line 250 has assigned to a product stays in the session until the
  next flush: the product query of the next line (autoflush) or the commit. \<open>None\<close>:
  no count is waiting. The flush sends it to the database in an \<^verbatim>\<open>UPDATE\<close>.
\<close>

definition flush_stock :: "int option \<Rightarrow> exn + unit" where
  "flush_stock pending =
     (case pending of None \<Rightarrow> Inr () | Some n \<Rightarrow> and_then (sql_int n) (\<lambda>_. Inr ()))"

text \<open>
  The row of a line (lines 239-245). The keyword arguments of \<^verbatim>\<open>TransactionLine\<close>
  are evaluated in order. The product query of line 248 then flushes the session: the
  unit of work writes the waiting stock count of the line before (it orders the
  statements by mapped class, \<^verbatim>\<open>Product\<close> before \<^verbatim>\<open>TransactionLine\<close>) and inserts
  the row, binding \<^verbatim>\<open>barcode\<close>, \<^verbatim>\<open>name\<close>, \<^verbatim>\<open>qty\<close>, \<^verbatim>\<open>price\<close> and \<^verbatim>\<open>cost\<close> in the
  order of the columns; the row gets its id.
\<close>

definition new_line :: "env \<Rightarrow> int \<Rightarrow> json \<Rightarrow> db \<Rightarrow> int option \<Rightarrow> exn + transaction_line" where
  "new_line env tid line d pending =
     and_then (py_get line ''barcode'' JNull) (\<lambda>bc.
     and_then (py_get line ''name'' JNull) (\<lambda>nm.
     and_then (py_get line ''qty'' (JInt 0)) (\<lambda>qv.
     and_then (py_int env qv) (\<lambda>q.
     and_then (py_get line ''price'' (JInt 0)) (\<lambda>pv.
     and_then (py_float env pv) (\<lambda>pr.
     and_then (py_get line ''cost'' (JInt 0)) (\<lambda>cv.
     and_then (py_float env cv) (\<lambda>co.
     and_then (flush_stock pending) (\<lambda>_.
     and_then (sql_text env bc) (\<lambda>b.
     and_then (sql_text env nm) (\<lambda>n.
     and_then (sql_int q) (\<lambda>q'.
       Inr \<lparr>l_id = new_id (map l_id (transaction_lines d)), l_transaction_id = tid,
            l_barcode = b, l_name = n, l_qty = q', l_price = sql_real pr,
            l_cost = sql_real co\<rparr>))))))))))))"

text \<open>
  One turn of the loop over the lines (lines 238-251), on the session's view of the
  store and the stock count that waits for the flush. The new stock count is a Python
  \<^verbatim>\<open>int\<close> of any size, and it waits in its turn. The snapshot dict is an ordinary
  Python dict: what is put into it stays, whatever happens to the session.
\<close>

definition store_line ::
    "env \<Rightarrow> int \<Rightarrow> json \<Rightarrow> db \<Rightarrow> int option \<Rightarrow> snapshots \<Rightarrow> snapshots \<times> (exn + db \<times> int option)" where
  "store_line env tid line d pending snaps =
     (case new_line env tid line d pending of
        Inl e \<Rightarrow> (snaps, Inl e)
      | Inr l \<Rightarrow>
          (let d1 = d\<lparr>transaction_lines := transaction_lines d @ [l]\<rparr>
           in case find_product (l_barcode l) (products d1) of
                None \<Rightarrow> (snaps, Inr (d1, None))
              | Some prod0 \<Rightarrow>
                  (let n = max 0 (qty_or_0 prod0 - l_qty l);
                       prod1 = prod0\<lparr>p_qty := Some n\<rparr>;
                       d2 = d1\<lparr>products :=
                                 update_product (p_barcode prod0) (\<lambda>_. prod1) (products d1)\<rparr>
                   in (AList.update (p_barcode prod1) prod1 snaps, Inr (d2, Some n)))))"

fun store_lines ::
    "env \<Rightarrow> int \<Rightarrow> json list \<Rightarrow> db \<Rightarrow> int option \<Rightarrow> snapshots \<Rightarrow> snapshots \<times> (exn + db \<times> int option)" where
  "store_lines env tid [] d pending snaps = (snaps, Inr (d, pending))"
| "store_lines env tid (line # rest) d pending snaps =
     (case store_line env tid line d pending snaps of
        (snaps', Inl e) \<Rightarrow> (snaps', Inl e)
      | (snaps', Inr (d', pending')) \<Rightarrow> store_lines env tid rest d' pending' snaps')"

text \<open>
  The row of the transaction (lines 225-235): its id is assigned and its columns are
  bound by \<^verbatim>\<open>db.session.flush()\<close>.
\<close>

definition new_transaction :: "env \<Rightarrow> db \<Rightarrow> (string \<times> json) list \<Rightarrow> exn + transaction" where
  "new_transaction env d tx =
     and_then (py_float env (dict_get_default tx ''total'' (JInt 0))) (\<lambda>total.
     let payment_type = dict_get_default tx ''payment_type'' (JStr ''cash'');
         created_at = parse_created_at env tx
     in and_then (sql_text env payment_type) (\<lambda>pt.
       Inr \<lparr>t_id = new_id (map t_id (transactions d)), t_created_at = created_at,
            t_total = sql_real total, t_payment_type = pt, t_synced = True\<rparr>))"

text \<open>
  The body of the \<^verbatim>\<open>try\<close> (lines 225-253) for the transaction dict \<open>tx\<close>: the session's
  view of the store after the body (what the commit makes durable) with the id of the
  new transaction, or the exception raised. The commit of line 253 flushes first: it
  writes the stock count that the last line has left waiting.
\<close>

definition try_body :: "env \<Rightarrow> db \<Rightarrow> snapshots \<Rightarrow> (string \<times> json) list \<Rightarrow> snapshots \<times> (exn + db \<times> int)" where
  "try_body env d snaps tx =
     (case new_transaction env d tx of
        Inl e \<Rightarrow> (snaps, Inl e)
      | Inr t \<Rightarrow>
          (case py_iter (dict_get_default tx ''lines'' (JArr [])) of
             Inl e \<Rightarrow> (snaps, Inl e)
           | Inr ls \<Rightarrow>
               (case store_lines env (t_id t) ls (d\<lparr>transactions := transactions d @ [t]\<rparr>)
                       None snaps of
                  (snaps', Inl e) \<Rightarrow> (snaps', Inl e)
                | (snaps', Inr (d2, pending)) \<Rightarrow>
                    (case flush_stock pending of
                       Inl e \<Rightarrow> (snaps', Inl e)
                     | Inr _ \<Rightarrow> (snaps', Inr (d2, t_id t))))))"

text \<open>
  The state of the loop over the batch: the committed store, \<^verbatim>\<open>ack\<close> and
  \<^verbatim>\<open>updated_products\<close>.
\<close>

type_synonym sync_state = "db \<times> ack_entry list \<times> snapshots"

text \<open>
  \<^verbatim>\<open>try: ... except Exception: db.session.rollback(); ack.append(...)\<close> for a transaction
  dict: a commit replaces the store by the session's view, a rollback keeps the store.
\<close>

definition sync_tx :: "env \<Rightarrow> sync_state \<Rightarrow> (string \<times> json) list \<Rightarrow> sync_state" where
  "sync_tx env st tx =
     (case st of (d, acks, snaps) \<Rightarrow>
      let lid = dict_get tx ''local_id''
      in case try_body env d snaps tx of
           (snaps', Inr (d', tid)) \<Rightarrow>
             (d', acks @ [\<lparr>local_id = lid, status = ''ok'', server_id = Some tid, error = None\<rparr>], snaps')
         | (snaps', Inl e) \<Rightarrow>
             (d, acks @ [\<lparr>local_id = lid, status = ''error'', server_id = None,
                          error = Some (str_exn e)\<rparr>], snaps'))"

text \<open>
  The loop of line 222. \<^verbatim>\<open>tx.get('local_id')\<close> stands before the \<^verbatim>\<open>try\<close>: on an
  element that is no dict it raises out of the endpoint, and what was committed before
  stays committed.
\<close>

fun sync_loop :: "env \<Rightarrow> json list \<Rightarrow> sync_state \<Rightarrow> db \<times> (exn + ack_entry list \<times> snapshots)" where
  "sync_loop env [] st = (case st of (d, acks, snaps) \<Rightarrow> (d, Inr (acks, snaps)))"
| "sync_loop env (JObj tx # rest) st = sync_loop env rest (sync_tx env st tx)"
| "sync_loop env (v # rest) st = (fst st, Inl (no_attribute v ''get''))"

text \<open>
  \<^verbatim>\<open>sync_transactions\<close> on the store \<open>d\<close> with the request's dict \<open>payload\<close>: the store
  after the request, and the response or the exception that ends the request.
\<close>

definition sync_transactions :: "env \<Rightarrow> db \<Rightarrow> (string \<times> json) list \<Rightarrow> db \<times> (exn + response)" where
  "sync_transactions env d payload =
     (case py_iter (dict_get_default payload ''transactions'' (JArr [])) of
        Inl e \<Rightarrow> (d, Inl e)
      | Inr txs \<Rightarrow>
          (case sync_loop env txs (d, [], []) of
             (d', Inl e) \<Rightarrow> (d', Inl e)
           | (d', Inr (acks, snaps)) \<Rightarrow>
               (d', Inr \<lparr>ok = True, ack = acks, updated_products = map snd snaps\<rparr>)))"

section \<open>The product endpoint\<close>

text \<open>
  \<^verbatim>\<open>str.strip()\<close>, on texts of ASCII characters: the white space of Python at both
  ends is dropped.
\<close>

definition is_space :: "char \<Rightarrow> bool" where
  "is_space c = (let n = of_char c :: nat in (9 \<le> n \<and> n \<le> 13) \<or> (28 \<le> n \<and> n \<le> 32))"

definition strip :: "string \<Rightarrow> string" where
  "strip s = rev (dropWhile is_space (rev (dropWhile is_space s)))"

text \<open>\<^verbatim>\<open>(v or '').strip()\<close>: a truthy value that is no string has no such method.\<close>

definition stripped :: "json \<Rightarrow> exn + string" where
  "stripped v =
     (case py_or v (JStr []) of
        JStr s \<Rightarrow> Inr (strip s)
      | w \<Rightarrow> Inl (no_attribute w ''strip''))"

text \<open>
  What a handler returns: the body of a 200 response, or a refusal with its status
  code and error text.
\<close>

datatype 'a http = Ok200 'a | Refused nat string

text \<open>\<^verbatim>\<open>if k in data: x = conv(data.get(k))\<close>, with the old value of \<open>x\<close> otherwise.\<close>

definition if_in :: "(string \<times> json) list \<Rightarrow> string \<Rightarrow> (json \<Rightarrow> exn + 'a) \<Rightarrow> 'a \<Rightarrow> exn + 'a" where
  "if_in data k conv old = (case map_of data k of None \<Rightarrow> Inr old | Some v \<Rightarrow> conv v)"

text \<open>
  The row a new \<^verbatim>\<open>Product(barcode=barcode)\<close> becomes when nothing else is assigned:
  the column defaults of \<^verbatim>\<open>models.py\<close> fill \<^verbatim>\<open>qty\<close>, \<^verbatim>\<open>is_new\<close> and
  \<^verbatim>\<open>created_at\<close>.
\<close>

definition new_product :: "env \<Rightarrow> db \<Rightarrow> string \<Rightarrow> product" where
  "new_product env d barcode =
     \<lparr>p_id = new_id (map p_id (products d)), p_barcode = barcode, p_name = None,
      p_price = None, p_cost = None, p_qty = Some 0, p_is_new = Some True,
      p_created_at = utcnow env\<rparr>"

text \<open>
  A stock count bound to the \<^verbatim>\<open>qty\<close> column (\<open>None\<close> is \<^verbatim>\<open>NULL\<close>).
\<close>

definition bind_qty :: "int option \<Rightarrow> exn + int option" where
  "bind_qty q = (case q of None \<Rightarrow> Inr None | Some n \<Rightarrow> and_then (sql_int n) (\<lambda>m. Inr (Some m)))"

text \<open>
  Lines 199-205: the assignments in order, then the commit, which binds the name and the
  stock count that were assigned, in the order of the columns. The row holds a NaN price
  or cost as \<^verbatim>\<open>NULL\<close>, and so does \<^verbatim>\<open>product.to_dict()\<close>, which reads the row again
  after the commit.
\<close>

definition assign_fields :: "env \<Rightarrow> (string \<times> json) list \<Rightarrow> product \<Rightarrow> exn + product" where
  "assign_fields env data p =
     and_then (if_in data ''price''
                 (\<lambda>v. and_then (py_float env (py_or v (JInt 0))) (\<lambda>f. Inr (sql_real f))) (p_price p)) (\<lambda>price.
     and_then (if_in data ''cost''
                 (\<lambda>v. and_then (py_float env (py_or v (JInt 0))) (\<lambda>f. Inr (sql_real f))) (p_cost p)) (\<lambda>cost.
     and_then (if_in data ''qty''
                 (\<lambda>v. and_then (py_int env (py_or v (JInt 0))) (\<lambda>n. Inr (Some n))) (p_qty p)) (\<lambda>qty.
     and_then (if_in data ''is_new'' (\<lambda>v. Inr (Some (truthy v))) (p_is_new p)) (\<lambda>is_new.
     and_then (if_in data ''name'' (sql_text env) (p_name p)) (\<lambda>name.
     and_then (if_in data ''qty'' (\<lambda>_. bind_qty qty) qty) (\<lambda>qty'.
       Inr (p\<lparr>p_name := name, p_price := price, p_cost := cost, p_qty := qty',
               p_is_new := is_new\<rparr>)))))))"

text \<open>
  \<^verbatim>\<open>create_or_update_product\<close> on the store \<open>d\<close> with the request's dict \<open>data\<close>: the
  store after the request, and the product returned, a refusal, or the exception that
  ends the request (nothing is committed then).
\<close>

definition create_or_update_product ::
    "env \<Rightarrow> db \<Rightarrow> (string \<times> json) list \<Rightarrow> db \<times> (exn + product http)" where
  "create_or_update_product env d data =
     (case stripped (dict_get data ''barcode'') of
        Inl e \<Rightarrow> (d, Inl e)
      | Inr barcode \<Rightarrow>
          if barcode = [] then (d, Inr (Refused 400 ''barcode required''))
          else (case find_product (Some barcode) (products d) of
                  None \<Rightarrow>
                    (case assign_fields env data (new_product env d barcode) of
                       Inl e \<Rightarrow> (d, Inl e)
                     | Inr p \<Rightarrow> (d\<lparr>products := products d @ [p]\<rparr>, Inr (Ok200 p)))
                | Some product0 \<Rightarrow>
                    (case assign_fields env data product0 of
                       Inl e \<Rightarrow> (d, Inl e)
                     | Inr p \<Rightarrow>
                         (d\<lparr>products := update_product barcode (\<lambda>_. p) (products d)\<rparr>,
                          Inr (Ok200 p)))))"

section \<open>The reorder heuristic\<close>

text \<open>\<^verbatim>\<open>a / b\<close> on two ints: the quotient, correctly rounded.\<close>

definition int_truediv :: "int \<Rightarrow> int \<Rightarrow> exn + pyfloat" where
  "int_truediv a b =
     (if b = 0 then Inl (ZeroDivisionError ''division by zero'')
      else case binary64 (of_int a / of_int b) of
             Fin r \<Rightarrow> Inr (Fin r)
           | _ \<Rightarrow> Inl (OverflowError ''integer division result too large for a float''))"

text \<open>\<^verbatim>\<open>x / y\<close> and \<^verbatim>\<open>x * y\<close> on two floats.\<close>

fun float_truediv :: "pyfloat \<Rightarrow> pyfloat \<Rightarrow> exn + pyfloat" where
  "float_truediv x (Fin b) =
     (if b = 0 then Inl (ZeroDivisionError ''float division by zero'')
      else Inr (case x of
                  Fin a \<Rightarrow> binary64 (a / b)
                | PInf \<Rightarrow> (if 0 < b then PInf else NInf)
                | NInf \<Rightarrow> (if 0 < b then NInf else PInf)
                | NaN \<Rightarrow> NaN))"
| "float_truediv (Fin a) y = Inr (if y = NaN then NaN else Fin 0)"
| "float_truediv x y = Inr NaN"

fun float_mul :: "pyfloat \<Rightarrow> pyfloat \<Rightarrow> pyfloat" where
  "float_mul (Fin a) (Fin b) = binary64 (a * b)"
| "float_mul NaN y = NaN"
| "float_mul x NaN = NaN"
| "float_mul (Fin a) y = (if a = 0 then NaN else if (0 < a) = (y = PInf) then PInf else NInf)"
| "float_mul x (Fin b) = (if b = 0 then NaN else if (0 < b) = (x = PInf) then PInf else NInf)"
| "float_mul x y = (if x = y then PInf else NInf)"

text \<open>\<^verbatim>\<open>x > 0\<close> on a float.\<close>

fun float_pos :: "pyfloat \<Rightarrow> bool" where
  "float_pos (Fin r) = (0 < r)"
| "float_pos PInf = True"
| "float_pos f = False"

text \<open>
  \<^verbatim>\<open>round(x, 1)\<close>: the float nearest to \<open>x\<close> rounded to one decimal (ties of the
  exact value to even); an infinity or NaN stays.
\<close>

fun round1 :: "pyfloat \<Rightarrow> pyfloat" where
  "round1 (Fin r) = binary64 (of_int (round_half_even (r * 10)) / 10)"
| "round1 f = f"

text \<open>
  The body of the 200 response: \<^verbatim>\<open>product\<close>, \<^verbatim>\<open>metrics\<close> and the
  \<^verbatim>\<open>suggested_reorder_qty\<close> of \<^verbatim>\<open>suggestions\<close>. The margins and the constant entries
  of the response depend on the product's price and cost alone and raise nothing; they
  are left out.
\<close>

record suggestion =
  s_product :: product
  total_sold_in_history :: int
  avg_daily_estimate :: pyfloat
  s_days_of_cover :: "pyfloat option"
  suggested_reorder_qty :: int

text \<open>\<^verbatim>\<open>prod.qty\<close> as an operand of \<^verbatim>\<open>/\<close> or \<^verbatim>\<open>-\<close>: \<^verbatim>\<open>None\<close> is no number.\<close>

definition qty_operand :: "product \<Rightarrow> string \<Rightarrow> exn + int" where
  "qty_operand p msg = (case p_qty p of None \<Rightarrow> Inl (TypeError msg) | Some q \<Rightarrow> Inr q)"

text \<open>Lines 288-291 of \<^verbatim>\<open>ai_suggest\<close>.\<close>

definition days_of_cover :: "product \<Rightarrow> pyfloat \<Rightarrow> exn + pyfloat" where
  "days_of_cover p avg_daily =
     (if avg_daily = Fin 0 then Inr PInf
      else and_then (qty_operand p
             (''unsupported operand type(s) for /: '' @ quoted ''NoneType'' @ '' and '' @ quoted ''float'')) (\<lambda>q.
           and_then (float_of_int q) (\<lambda>qf. float_truediv qf avg_daily)))"

definition suggested_reorder :: "product \<Rightarrow> pyfloat \<Rightarrow> exn + int" where
  "suggested_reorder p avg_daily =
     (if float_pos avg_daily
      then and_then (int_of_float (float_mul avg_daily (Fin 14))) (\<lambda>n.
           let target = max n 5
           in and_then (qty_operand p
                (''unsupported operand type(s) for -: '' @ quoted ''int'' @ '' and '' @ quoted ''NoneType'')) (\<lambda>q.
              Inr (max 0 (target - q))))
      else Inr 0)"

text \<open>\<^verbatim>\<open>ai_suggest\<close> on the store \<open>d\<close> with the request's dict \<open>data\<close>; it writes nothing.\<close>

definition ai_suggest :: "env \<Rightarrow> db \<Rightarrow> (string \<times> json) list \<Rightarrow> exn + suggestion http" where
  "ai_suggest env d data =
     and_then (stripped (dict_get data ''barcode'')) (\<lambda>barcode.
     and_then (py_int env (dict_get_default data ''lookback_days'' (JInt 14))) (\<lambda>lookback_days.
       if barcode = [] then Inr (Refused 400 ''barcode required'')
       else (case find_product (Some barcode) (products d) of
               None \<Rightarrow> Inr (Refused 404 ''product not found'')
             | Some prod0 \<Rightarrow>
                 (let lines = filter (\<lambda>l. l_barcode l = Some barcode) (transaction_lines d);
                      total_sold = sum_list (map l_qty lines)
                  in and_then (int_truediv total_sold (max 1 lookback_days)) (\<lambda>avg_daily.
                     and_then (days_of_cover prod0 avg_daily) (\<lambda>cover.
                     and_then (suggested_reorder prod0 avg_daily) (\<lambda>reorder.
                       Inr (Ok200 \<lparr>s_product = prod0, total_sold_in_history = total_sold,
                                   avg_daily_estimate = avg_daily,
                                   s_days_of_cover = (if cover = PInf then None else Some (round1 cover)),
                                   suggested_reorder_qty = reorder\<rparr>))))))))"

section \<open>Histories, invariants and example inputs\<close>

text \<open>The request dict of a batch of transaction dicts.\<close>

definition batch :: "(string \<times> json) list list \<Rightarrow> (string \<times> json) list" where
  "batch txs = [(''transactions'', JArr (map JObj txs))]"

text \<open>No product has a negative stock count (a null count reads as 0, as the code reads it).\<close>

definition all_nonneg :: "db \<Rightarrow> bool" where
  "all_nonneg d = list_all (\<lambda>p. 0 \<le> qty_or_0 p) (products d)"

text \<open>
  A history of the store: requests to the two endpoints that write products, each
  with the environment (the clock reading) it runs in.
\<close>

datatype operation = Sync "(string \<times> json) list" | Upsert "(string \<times> json) list"

fun apply_operation :: "db \<Rightarrow> env \<times> operation \<Rightarrow> db" where
  "apply_operation d (env, Sync payload) = fst (sync_transactions env d payload)"
| "apply_operation d (env, Upsert data) = fst (create_or_update_product env d data)"

definition run :: "db \<Rightarrow> (env \<times> operation) list \<Rightarrow> db" where
  "run d ops = fold (\<lambda>op d'. apply_operation d' op) ops d"

text \<open>
  The stock count a product request supplies, as \<^verbatim>\<open>int(data.get('qty') or 0)\<close> reads
  it, is not negative (or the request supplies none).
\<close>

definition supplied_qty_nonneg :: "env \<Rightarrow> (string \<times> json) list \<Rightarrow> bool" where
  "supplied_qty_nonneg env data =
     (case map_of data ''qty'' of
        None \<Rightarrow> True
      | Some v \<Rightarrow> (case py_int env (py_or v (JInt 0)) of Inl e \<Rightarrow> True | Inr n \<Rightarrow> 0 \<le> n))"

fun upserts_nonneg :: "env \<times> operation \<Rightarrow> bool" where
  "upserts_nonneg (env, Sync payload) = True"
| "upserts_nonneg (env, Upsert data) = supplied_qty_nonneg env data"



text \<open>
  An environment for the examples: it reads no string as a number or a date, and its
  driver refuses everything but a string in a text column. The examples give numbers
  as JSON numbers.
\<close>

definition example_env :: env where
  "example_env =
     \<lparr>float_of_str = (\<lambda>s. None), int_of_str = (\<lambda>s. None), repr_str = quoted,
      fromisoformat = (\<lambda>s. None), utcnow = 0,
      driver_text = (\<lambda>v. Inl (DBAPIError ''type is not supported''))\<rparr>"

definition example_product :: product where
  "example_product =
     \<lparr>p_id = 1, p_barcode = ''111'', p_name = Some ''Milk'', p_price = Some (Fin 50),
      p_cost = Some (Fin 40), p_qty = Some 10, p_is_new = Some False, p_created_at = 0\<rparr>"

definition example_db :: db where
  "example_db = \<lparr>products = [example_product], transactions = [], transaction_lines = []\<rparr>"

text \<open>A line dict and a transaction dict as a client sends them.\<close>

definition example_line :: "string \<Rightarrow> json \<Rightarrow> json" where
  "example_line barcode qty =
     JObj [(''barcode'', JStr barcode), (''name'', JStr ''Milk''), (''qty'', qty),
           (''price'', JFloat (Fin 50)), (''cost'', JFloat (Fin 40))]"

definition example_tx :: "string \<Rightarrow> json list \<Rightarrow> (string \<times> json) list" where
  "example_tx lid ls =
     [(''local_id'', JStr lid), (''total'', JInt 150), (''payment_type'', JStr ''cash''),
      (''lines'', JArr ls)]"



text \<open>
  A transaction dict with one line and nothing that is optional: the transaction of a
  sale of \<open>q\<close> pieces of the barcode \<open>b\<close>.
\<close>

definition sale :: "json \<Rightarrow> string \<Rightarrow> int \<Rightarrow> (string \<times> json) list" where
  "sale lid b q =
     [(''local_id'', lid), (''lines'', JArr [JObj [(''barcode'', JStr b), (''qty'', JInt q)]])]"


text \<open>
  The reorder quantity as the specification words it (section 4.2): the sum of the
  sold quantities divided by the lookback days, a 14-day target of at least 5, and the
  target less the stock, floored at zero. Kept apart from \<open>ai_suggest\<close>, which is the
  code, to compare the two.
\<close>

definition spec_reorder :: "int \<Rightarrow> int \<Rightarrow> int \<Rightarrow> rat" where
  "spec_reorder total_sold lookback_days qty =
     max 0 (max (of_int total_sold / of_int lookback_days * 14) 5 - of_int qty)"

text \<open>A store with one sale of 61 pieces of the example product.\<close>

definition sold_db :: db where
  "sold_db =
     \<lparr>products = [example_product],
      transactions = [\<lparr>t_id = 1, t_created_at = 0, t_total = Some (Fin 0),
                       t_payment_type = Some ''cash'', t_synced = True\<rparr>],
      transaction_lines = [\<lparr>l_id = 1, l_transaction_id = 1, l_barcode = Some ''111'',
                            l_name = None, l_qty = 61, l_price = Some (Fin 0),
                            l_cost = Some (Fin 0)\<rparr>]\<rparr>"

text \<open>
  The snapshot dict agrees with the store: one entry for a barcode, each the product
  that the store has for that barcode.
\<close>

definition snaps_current :: "db \<Rightarrow> snapshots \<Rightarrow> bool" where
  "snaps_current d snaps \<longleftrightarrow>
     distinct (map fst snaps) \<and>
     (\<forall>k v. map_of snaps k = Some v \<longrightarrow> p_barcode v = k \<and> find_product (Some k) (products d) = Some v)"




text \<open>
  A line of the types the interface declares (section 6): the \<^verbatim>\<open>barcode\<close> a string, the
  \<^verbatim>\<open>qty\<close> an integer, \<^verbatim>\<open>price\<close> and \<^verbatim>\<open>cost\<close> numbers; and the numbers are numbers
  that a binary64 float holds exactly: a float that is no NaN, or an integer that
  \<^verbatim>\<open>float()\<close> does not round.
\<close>

definition exact_number :: "json \<Rightarrow> bool" where
  "exact_number v \<longleftrightarrow>
     (case v of
        JInt n \<Rightarrow> binary64 (of_int n) = Fin (of_int n)
      | JFloat f \<Rightarrow> f \<noteq> NaN
      | _ \<Rightarrow> False)"


section \<open>Basic facts\<close>

lemma and_then_Inr: "and_then m f = Inr y \<longleftrightarrow> (\<exists>x. m = Inr x \<and> f x = Inr y)"
  by (cases m) (simp_all add: and_then_def)

lemma and_then_Inl: "and_then m f = Inl e \<longleftrightarrow> (m = Inl e \<or> (\<exists>x. m = Inr x \<and> f x = Inl e))"
  by (cases m) (simp_all add: and_then_def)

text \<open>On a batch of dicts the loop of the endpoint is a fold of \<open>sync_tx\<close>.\<close>

lemma sync_loop_dicts:
  "sync_loop env (map JObj txs) st =
     (case fold (\<lambda>tx st'. sync_tx env st' tx) txs st of (d, acks, snaps) \<Rightarrow> (d, Inr (acks, snaps)))"
  by (induction txs arbitrary: st) (auto split: prod.splits)

lemma sync_tx_ack:
  "\<exists>d' a snaps'. sync_tx env (d, acks, snaps) tx = (d', acks @ [a], snaps') \<and>
      local_id a = dict_get tx ''local_id''"
  by (auto simp: sync_tx_def Let_def split: prod.splits sum.splits)

lemma fold_sync_local_ids:
  "fold (\<lambda>tx st'. sync_tx env st' tx) txs (d, acks, snaps) = (d', acks', snaps') \<Longrightarrow>
   map local_id acks' = map local_id acks @ map (\<lambda>tx. dict_get tx ''local_id'') txs"
proof (induction txs arbitrary: d acks snaps)
  case Nil
  then show ?case by simp
next
  case (Cons tx txs)
  obtain d1 a s1 where step: "sync_tx env (d, acks, snaps) tx = (d1, acks @ [a], s1)"
    and lid: "local_id a = dict_get tx ''local_id''"
    using sync_tx_ack by blast
  from Cons.prems step
  have "fold (\<lambda>tx st'. sync_tx env st' tx) txs (d1, acks @ [a], s1) = (d', acks', snaps')"
    by simp
  from Cons.IH[OF this] lid show ?case by simp
qed



lemma sql_int_Inr: "sql_int n = Inr m \<longleftrightarrow> m = n \<and> int64 n"
  by (auto simp: sql_int_def)




lemma store_line_Inl:
  "store_line env tid line d pending snaps = (s', Inl e) \<Longrightarrow>
   s' = snaps \<and> new_line env tid line d pending = Inl e"
  by (auto simp: store_line_def Let_def split: sum.splits option.splits)

lemma store_line_Inr:
  assumes "store_line env tid line d pending snaps = (s', Inr (d', pending'))"
  shows "\<exists>l. new_line env tid line d pending = Inr l \<and>
             transactions d' = transactions d \<and>
             transaction_lines d' = transaction_lines d @ [l] \<and>
             (case find_product (l_barcode l) (products d) of
                None \<Rightarrow> products d' = products d \<and> s' = snaps \<and> pending' = None
              | Some p \<Rightarrow>
                  products d' = update_product (p_barcode p)
                     (\<lambda>_. p\<lparr>p_qty := Some (max 0 (qty_or_0 p - l_qty l))\<rparr>) (products d) \<and>
                  s' = AList.update (p_barcode p) (p\<lparr>p_qty := Some (max 0 (qty_or_0 p - l_qty l))\<rparr>) snaps \<and>
                  pending' = Some (max 0 (qty_or_0 p - l_qty l)))"
  using assms
  by (auto simp: store_line_def Let_def split: sum.splits option.splits)

lemma store_line_snaps_indep:
  "snd (store_line env tid line d pending s1) = snd (store_line env tid line d pending s2)"
  by (auto simp: store_line_def Let_def split: sum.splits option.splits)

lemma store_lines_snaps_indep:
  "snd (store_lines env tid ls d pending s1) = snd (store_lines env tid ls d pending s2)"
proof (induction ls arbitrary: d pending s1 s2)
  case Nil
  show ?case by simp
next
  case (Cons line ls)
  obtain a1 r1 where e1: "store_line env tid line d pending s1 = (a1, r1)"
    by (cases "store_line env tid line d pending s1")
  obtain a2 where e2: "store_line env tid line d pending s2 = (a2, r1)"
    using store_line_snaps_indep[of env tid line d pending s1 s2] e1
    by (cases "store_line env tid line d pending s2") simp
  show ?case
  proof (cases r1)
    case (Inl e)
    show ?thesis by (simp add: e1 e2 Inl)
  next
    case (Inr x)
    obtain d1 p1 where x: "x = (d1, p1)" by (cases x)
    show ?thesis using Cons.IH[of d1 p1 a1 a2] by (simp add: e1 e2 Inr x)
  qed
qed

lemma try_body_snaps_indep:
  "snd (try_body env d s1 tx) = snd (try_body env d s2 tx)"
proof (cases "new_transaction env d tx")
  case (Inl e)
  then show ?thesis by (simp add: try_body_def)
next
  case t: (Inr t)
  show ?thesis
  proof (cases "py_iter (dict_get_default tx ''lines'' (JArr []))")
    case (Inl e)
    with t show ?thesis by (simp add: try_body_def)
  next
    case ls: (Inr ls)
    let ?d1 = "d\<lparr>transactions := transactions d @ [t]\<rparr>"
    obtain a1 r1 where e1: "store_lines env (t_id t) ls ?d1 None s1 = (a1, r1)"
      by (cases "store_lines env (t_id t) ls ?d1 None s1")
    obtain a2 where e2: "store_lines env (t_id t) ls ?d1 None s2 = (a2, r1)"
      using store_lines_snaps_indep[of env "t_id t" ls ?d1 None s1 s2] e1
      by (cases "store_lines env (t_id t) ls ?d1 None s2") simp
    show ?thesis
      by (cases r1) (simp_all add: try_body_def t ls e1 e2 split: prod.splits sum.splits)
  qed
qed


text \<open>The endpoint on a batch of dicts.\<close>

lemma sync_transactions_batch:
  "sync_transactions env d (batch txs) =
     (case fold (\<lambda>tx st'. sync_tx env st' tx) txs (d, [], []) of
        (d', acks, snaps) \<Rightarrow> (d', Inr \<lparr>ok = True, ack = acks, updated_products = map snd snaps\<rparr>))"
  by (simp add: sync_transactions_def batch_def dict_get_default_def sync_loop_dicts split: prod.splits)

lemma sync_tx_indep:
  "\<exists>d' a t1 t2. sync_tx env (d, acks1, s1) tx = (d', acks1 @ [a], t1) \<and>
                 sync_tx env (d, acks2, s2) tx = (d', acks2 @ [a], t2)"
proof -
  obtain a1 r where e1: "try_body env d s1 tx = (a1, r)" by (cases "try_body env d s1 tx")
  obtain a2 where e2: "try_body env d s2 tx = (a2, r)"
    using try_body_snaps_indep[of env d s1 tx s2] e1 by (cases "try_body env d s2 tx") simp
  show ?thesis by (cases r) (auto simp: sync_tx_def e1 e2)
qed

lemma fold_sync_indep:
  assumes "fold (\<lambda>tx st'. sync_tx env st' tx) txs (d, acks1, s1) = (d1, a1, t1)"
      and "fold (\<lambda>tx st'. sync_tx env st' tx) txs (d, acks2, s2) = (d2, a2, t2)"
  shows "d1 = d2 \<and> (\<exists>new. a1 = acks1 @ new \<and> a2 = acks2 @ new \<and> length new = length txs)"
  using assms
proof (induction txs arbitrary: d acks1 s1 acks2 s2)
  case Nil
  then show ?case by simp
next
  case (Cons tx txs)
  obtain d' a u1 u2 where st1: "sync_tx env (d, acks1, s1) tx = (d', acks1 @ [a], u1)"
    and st2: "sync_tx env (d, acks2, s2) tx = (d', acks2 @ [a], u2)"
    using sync_tx_indep by blast
  have f1: "fold (\<lambda>tx st'. sync_tx env st' tx) txs (d', acks1 @ [a], u1) = (d1, a1, t1)"
    using Cons.prems(1) st1 by simp
  have f2: "fold (\<lambda>tx st'. sync_tx env st' tx) txs (d', acks2 @ [a], u2) = (d2, a2, t2)"
    using Cons.prems(2) st2 by simp
  from Cons.IH[OF f1 f2] obtain new where "d1 = d2" "a1 = (acks1 @ [a]) @ new"
    "a2 = (acks2 @ [a]) @ new" "length new = length txs" by blast
  then have "d1 = d2 \<and> a1 = acks1 @ (a # new) \<and> a2 = acks2 @ (a # new) \<and>
             length (a # new) = length (tx # txs)" by simp
  then show ?case by blast
qed


lemma try_body_Inr:
  assumes "try_body env d s tx = (s', Inr (d', tid))"
  shows "\<exists>t ls pending. new_transaction env d tx = Inr t \<and> t_id t = tid \<and>
           py_iter (dict_get_default tx ''lines'' (JArr [])) = Inr ls \<and>
           store_lines env tid ls (d\<lparr>transactions := transactions d @ [t]\<rparr>) None s =
             (s', Inr (d', pending)) \<and>
           flush_stock pending = Inr ()"
  using assms
  by (auto simp: try_body_def split: sum.splits prod.splits)






section \<open>Facts about the rounding\<close>

text \<open>
  \<open>floor_log2\<close> is the binary logarithm rounded down; a rational below \<open>2 powi k\<close>
  is rounded to a finite float that is not above \<open>2 powi k\<close>; an integer of at most
  53 bits is a float.
\<close>

lemma round_half_even_nonneg: "0 \<le> r \<Longrightarrow> 0 \<le> round_half_even r"
  by (auto simp: round_half_even_def Let_def)

lemma binary64_nonpos:
  assumes "binary64 r = Fin a" and "r \<le> 0"
  shows "a \<le> 0"
proof (cases "r = 0")
  case True
  with assms show ?thesis by (simp add: binary64_def)
next
  case False
  let ?q = "max (floor_log2 \<bar>r\<bar>) (- 1022) - 52"
  let ?v = "of_int (round_half_even (\<bar>r\<bar> / 2 powi ?q)) * 2 powi ?q :: rat"
  have p: "(0::rat) < 2 powi ?q" by (simp add: zero_less_power_int)
  then have "0 \<le> \<bar>r\<bar> / 2 powi ?q" by simp
  from round_half_even_nonneg[OF this] p have v: "0 \<le> ?v" by simp
  from assms False have "a = - ?v"
    by (simp add: binary64_def Let_def split: if_splits)
  with v show ?thesis by simp
qed

lemma of_int_bitlen_bounds:
  assumes "0 < p"
  shows "(2::rat) powi (bitlen p - 1) \<le> of_int p \<and> (of_int p :: rat) < 2 powi bitlen p"
proof -
  from bitlen_bounds[OF assms] have lo: "2 ^ nat (bitlen p - 1) \<le> p" and hi: "p < 2 ^ nat (bitlen p)"
    by simp_all
  have b1: "1 \<le> bitlen p" using assms bitlen_eq_zero_iff[of p] bitlen_nonneg[of p] by linarith
  have "(2::rat) powi (bitlen p - 1) = 2 ^ nat (bitlen p - 1)"
    using b1 by (simp add: power_int_def)
  also have "\<dots> = of_int (2 ^ nat (bitlen p - 1))" by simp
  also have "\<dots> \<le> of_int p" using lo by (simp only: of_int_le_iff)
  finally have l: "(2::rat) powi (bitlen p - 1) \<le> of_int p" .
  have "(of_int p :: rat) < of_int (2 ^ nat (bitlen p))" using hi by (simp only: of_int_less_iff)
  also have "\<dots> = 2 ^ nat (bitlen p)" by simp
  also have "\<dots> = 2 powi bitlen p" using b1 by (simp add: power_int_def)
  finally have "(of_int p :: rat) < 2 powi bitlen p" .
  with l show ?thesis by simp
qed

lemma floor_log2_bounds:
  assumes "0 < r"
  shows "2 powi floor_log2 r \<le> r \<and> r < 2 powi (floor_log2 r + 1)"
proof -
  obtain p q where pq: "quotient_of r = (p, q)" by (cases "quotient_of r")
  have q: "0 < q" using quotient_of_denom_pos[OF pq] .
  have r: "r = of_int p / of_int q" using quotient_of_div[OF pq] .
  have p: "0 < p" using assms q r by (simp add: zero_less_divide_iff)
  let ?e = "bitlen p - bitlen q"
  from of_int_bitlen_bounds[OF p] have pl: "(2::rat) powi (bitlen p - 1) \<le> of_int p"
    and ph: "(of_int p :: rat) < 2 powi bitlen p" by simp_all
  from of_int_bitlen_bounds[OF q] have ql: "(2::rat) powi (bitlen q - 1) \<le> of_int q"
    and qh: "(of_int q :: rat) < 2 powi bitlen q" by simp_all
  have qpos: "(0::rat) < of_int q" using q by simp
  have up: "r < 2 powi (?e + 1)"
  proof -
    have "of_int p < (2::rat) powi bitlen p" by (rule ph)
    also have "\<dots> = 2 powi (?e + 1) * 2 powi (bitlen q - 1)"
      by (simp add: power_int_add[symmetric])
    also have "\<dots> \<le> 2 powi (?e + 1) * of_int q"
      using ql by (simp add: mult_left_mono)
    finally show ?thesis unfolding r using qpos by (simp add: pos_divide_less_eq)
  qed
  have lo: "2 powi (?e - 1) < r"
  proof -
    have "(2::rat) powi (?e - 1) * of_int q < 2 powi (?e - 1) * 2 powi bitlen q"
      using qh by (simp add: mult_strict_left_mono)
    also have "\<dots> = 2 powi (bitlen p - 1)" by (simp add: power_int_add[symmetric])
    also have "\<dots> \<le> of_int p" by (rule pl)
    finally show ?thesis unfolding r using qpos by (simp add: pos_less_divide_eq)
  qed
  show ?thesis
  proof (cases "2 powi ?e \<le> r")
    case True
    then have "floor_log2 r = ?e" by (simp add: floor_log2_def pq)
    with True up show ?thesis by simp
  next
    case False
    then have "floor_log2 r = ?e - 1" by (simp add: floor_log2_def pq)
    with False lo show ?thesis by simp
  qed
qed


lemma powi2_less_iff: "(2::rat) powi m < 2 powi n \<longleftrightarrow> m < n"
proof
  assume l: "(2::rat) powi m < 2 powi n"
  show "m < n"
  proof (rule ccontr)
    assume "\<not> m < n"
    then have "n \<le> m" by simp
    then have "(2::rat) powi n \<le> 2 powi m" by (rule power_int_increasing) simp
    with l show False by simp
  qed
next
  assume "m < n"
  then show "(2::rat) powi m < 2 powi n" by (rule power_int_strict_increasing) simp
qed

lemma powi2_le_iff: "(2::rat) powi m \<le> 2 powi n \<longleftrightarrow> m \<le> n"
  using powi2_less_iff[of n m] by (auto simp: not_less[symmetric])

lemma round_half_even_le: "round_half_even r \<le> \<lfloor>r\<rfloor> + 1"
  by (simp add: round_half_even_def Let_def)

lemma round_half_even_of_int: "round_half_even (of_int z) = z"
  by (simp add: round_half_even_def Let_def)

lemma binary64_unfold:
  assumes "r \<noteq> 0"
    and "q = max (floor_log2 \<bar>r\<bar>) (- 1022) - 52"
    and "v = of_int (round_half_even (\<bar>r\<bar> / 2 powi q)) * 2 powi q"
    and "v < 2 ^ 1024"
  shows "binary64 r = Fin (if 0 < r then v else - v)"
  using assms by (simp add: binary64_def Let_def)

lemma binary64_finite:
  assumes "\<bar>r\<bar> < 2 powi k" and "- 1021 \<le> k" and "k \<le> 1023"
  shows "\<exists>a. binary64 r = Fin a \<and> \<bar>a\<bar> \<le> 2 powi k"
proof (cases "r = 0")
  case True
  then show ?thesis by (simp add: binary64_def)
next
  case False
  define a where "a = \<bar>r\<bar>"
  define e where "e = floor_log2 a"
  define q where "q = max e (- 1022) - 52"
  define x where "x = a / 2 powi q"
  define m where "m = round_half_even x"
  define v :: rat where "v = of_int m * 2 powi q"
  have a: "0 < a" using False by (simp add: a_def)
  from floor_log2_bounds[OF a] have lo: "2 powi e \<le> a" and hi: "a < 2 powi (e + 1)"
    by (simp_all add: e_def)
  have "(2::rat) powi e < 2 powi k" using lo assms(1) by (simp add: a_def)
  then have ek: "e < k" by (simp only: powi2_less_iff)
  have p2: "(0::rat) < 2 powi q" by simp
  have "x < 2 powi (e + 1) / 2 powi q"
    unfolding x_def using hi p2 by (rule divide_strict_right_mono)
  also have "2 powi (e + 1) / 2 powi q = (2::rat) powi (e + 1 - q)"
    by (rule power_int_diff[symmetric]) simp
  also have "\<dots> \<le> 2 powi 53" by (rule power_int_increasing) (simp_all add: q_def)
  finally have x: "x < 2 powi 53" .
  have "(2::rat) powi 53 = of_int (2 ^ 53)" by simp
  with x have "x < of_int (2 ^ 53)" by (simp only:)
  then have "\<lfloor>x\<rfloor> < 2 ^ 53" by (simp only: floor_less_iff)
  with round_half_even_le[of x] have m: "m \<le> 2 ^ 53" unfolding m_def by linarith
  have x0: "0 \<le> x" unfolding x_def using a p2 by simp
  have m0: "0 \<le> m" unfolding m_def using round_half_even_nonneg[OF x0] .
  have "(of_int m :: rat) \<le> of_int (2 ^ 53)" using m by (simp only: of_int_le_iff)
  also have "(of_int (2 ^ 53) :: rat) = 2 powi 53" by simp
  finally have "(of_int m :: rat) \<le> 2 powi 53" .
  then have "v \<le> 2 powi 53 * 2 powi q"
    unfolding v_def using p2 by (simp only: mult_right_mono less_imp_le)
  also have "(2::rat) powi 53 * 2 powi q = 2 powi (53 + q)"
    by (rule power_int_add[symmetric]) simp
  also have "\<dots> \<le> 2 powi k" using ek assms(2) by (intro power_int_increasing) (simp_all add: q_def)
  finally have vk: "v \<le> 2 powi k" .
  have "(2::rat) powi k \<le> 2 powi 1023" using assms(3) by (intro power_int_increasing) simp_all
  also have "\<dots> < 2 ^ 1024" by simp
  finally have "v < 2 ^ 1024" using vk by simp
  then have b: "binary64 r = Fin (if 0 < r then v else - v)"
    by (intro binary64_unfold[OF False, of q]) (simp_all add: q_def e_def a_def v_def m_def x_def)
  have v0: "0 \<le> v" unfolding v_def using m0 p2 by simp
  have "\<bar>if 0 < r then v else - v\<bar> = v" using v0 by simp
  with vk b show ?thesis by simp
qed

lemma binary64_of_int:
  assumes "\<bar>n\<bar> \<le> 2 ^ 53"
  shows "binary64 (of_int n) = Fin (of_int n)"
proof (cases "n = 0")
  case True
  then show ?thesis by (simp add: binary64_def)
next
  case False
  define a :: rat where "a = of_int \<bar>n\<bar>"
  define e where "e = floor_log2 a"
  define q where "q = max e (- 1022) - 52"
  have a1: "1 \<le> a"
  proof -
    have "1 \<le> \<bar>n\<bar>" using False by simp
    then have "(of_int 1 :: rat) \<le> of_int \<bar>n\<bar>" by (simp only: of_int_le_iff)
    then show ?thesis by (simp add: a_def)
  qed
  then have a: "0 < a" by simp
  have a53: "a \<le> 2 powi 53"
  proof -
    have "(of_int \<bar>n\<bar> :: rat) \<le> of_int (2 ^ 53)" using assms by (simp only: of_int_le_iff)
    then show ?thesis by (simp add: a_def)
  qed
  from floor_log2_bounds[OF a] have lo: "2 powi e \<le> a" and hi: "a < 2 powi (e + 1)"
    by (simp_all add: e_def)
  have "(2::rat) powi 0 < 2 powi (e + 1)" using a1 hi by simp
  then have e0: "0 \<le> e" by (simp only: powi2_less_iff)
  have "(2::rat) powi e \<le> 2 powi 53" using lo a53 by (rule order_trans)
  then have e53: "e \<le> 53" by (simp only: powi2_le_iff)
  have q: "q = e - 52" using e0 by (simp add: q_def)
  have p2: "(0::rat) < 2 powi q" by simp
  have "\<exists>z. a = of_int z * 2 powi q"
  proof (cases "e \<le> 52")
    case True
    define j where "j = nat (52 - e)"
    have "q = - int j" using q True by (simp add: j_def)
    then have "(2::rat) powi q = inverse (2 ^ j)" by (simp add: power_int_minus)
    then have "of_int (\<bar>n\<bar> * 2 ^ j) * (2::rat) powi q = a" by (simp add: a_def)
    then show ?thesis by metis
  next
    case False
    with e53 have e: "e = 53" by simp
    with lo a53 have "a = 2 powi 53" by simp
    moreover have "q = 1" using q e by simp
    ultimately have "a = of_int (2 ^ 52) * 2 powi q" by simp
    then show ?thesis by blast
  qed
  then obtain z where z: "a = of_int z * 2 powi q" by blast
  have "a / 2 powi q = of_int z" unfolding z using p2 by simp
  then have v: "of_int (round_half_even (a / 2 powi q)) * 2 powi q = a"
    by (simp only: round_half_even_of_int z)
  have "(2::rat) powi 53 < 2 ^ 1024" by simp
  with a53 have big: "a < 2 ^ 1024" by simp
  have an: "a = \<bar>of_int n\<bar>" by (simp add: a_def)
  have "binary64 (of_int n) = Fin (if 0 < (of_int n :: rat) then a else - a)"
  proof (rule binary64_unfold[of _ q])
    show "(of_int n :: rat) \<noteq> 0" using False by simp
    show "q = max (floor_log2 \<bar>of_int n\<bar>) (- 1022) - 52" by (simp only: q_def e_def an)
    show "a = of_int (round_half_even (\<bar>of_int n\<bar> / 2 powi q)) * 2 powi q"
      using v by (simp only: an)
    show "a < 2 ^ 1024" by (rule big)
  qed
  then show ?thesis unfolding an by (simp split: if_splits)
qed

lemma float_of_int_exact: "\<bar>n\<bar> \<le> 2 ^ 53 \<Longrightarrow> float_of_int n = Inr (Fin (of_int n))"
  by (simp add: float_of_int_def binary64_of_int)


section \<open>The numbers of the database\<close>

text \<open>
  A \<^verbatim>\<open>qty\<close> beyond 64 bits is refused when the line is flushed, also on a barcode
  that no product has: the transaction is rolled back and reported with the driver's
  message.
\<close>

lemma qty_beyond_64_bits_refused:
  "sync_transactions example_env example_db
     (batch [example_tx ''a'' [example_line ''999'' (JInt 9223372036854775808)]]) =
     (example_db,
      Inr \<lparr>ok = True,
           ack = [\<lparr>local_id = JStr ''a'', status = ''error'', server_id = None,
                   error = Some ''Python int too large to convert to SQLite INTEGER''\<rparr>],
           updated_products = []\<rparr>)"
  by code_simp

text \<open>
  A negative \<^verbatim>\<open>qty\<close> raises the stock count; a count beyond 64 bits is refused by the
  commit, after its snapshot was put into \<^verbatim>\<open>updated_products\<close>.
\<close>

lemma stock_beyond_64_bits_refused:
  "sync_transactions example_env example_db
     (batch [example_tx ''a'' [example_line ''111'' (JInt (- 9223372036854775808))]]) =
     (example_db,
      Inr \<lparr>ok = True,
           ack = [\<lparr>local_id = JStr ''a'', status = ''error'', server_id = None,
                   error = Some ''Python int too large to convert to SQLite INTEGER''\<rparr>],
           updated_products = [example_product\<lparr>p_qty := Some 9223372036854775818\<rparr>]\<rparr>)"
  by code_simp

text \<open>A NaN price is stored as null; an absent name is null and an absent cost 0.\<close>

lemma nan_price_stored_as_null:
  "sync_transactions example_env example_db
     (batch [example_tx ''a''
        [JObj [(''barcode'', JStr ''999''), (''qty'', JInt 1), (''price'', JFloat NaN)]]]) =
     (example_db\<lparr>transactions := [\<lparr>t_id = 1, t_created_at = 0, t_total = Some (Fin 150),
                                    t_payment_type = Some ''cash'', t_synced = True\<rparr>],
        transaction_lines :=
          [\<lparr>l_id = 1, l_transaction_id = 1, l_barcode = Some ''999'', l_name = None,
            l_qty = 1, l_price = None, l_cost = Some (Fin 0)\<rparr>]\<rparr>,
      Inr \<lparr>ok = True,
           ack = [\<lparr>local_id = JStr ''a'', status = ''ok'', server_id = Some 1, error = None\<rparr>],
           updated_products = []\<rparr>)"
  by code_simp

text \<open>
  The product endpoint: a stock count beyond 64 bits ends the request with the
  driver's exception and nothing is stored; a NaN price is stored, and returned, as
  null.
\<close>

lemma product_qty_beyond_64_bits_refused:
  "create_or_update_product example_env example_db
     [(''barcode'', JStr ''111''), (''qty'', JInt 9223372036854775808)] =
     (example_db, Inl (OverflowError ''Python int too large to convert to SQLite INTEGER''))"
  by code_simp

lemma product_nan_price_stored_as_null:
  "create_or_update_product example_env example_db
     [(''barcode'', JStr ''111''), (''price'', JFloat NaN)] =
     (example_db\<lparr>products := [example_product\<lparr>p_price := None\<rparr>]\<rparr>,
      Inr (Ok200 (example_product\<lparr>p_price := None\<rparr>)))"
  by code_simp

section \<open>The acknowledgements follow the batch\<close>

text \<open>
  C3. For a request whose \<^verbatim>\<open>transactions\<close> is a list of transaction dicts (or is
  absent: the empty batch), the endpoint returns a response, and its \<^verbatim>\<open>ack\<close> has one
  entry for each transaction of the batch, failed ones too, in the order of the batch:
  the entry at position \<open>i\<close> carries the \<^verbatim>\<open>local_id\<close> of the transaction at
  position \<open>i\<close>.
\<close>

theorem sync_ack_order:
  assumes "dict_get_default payload ''transactions'' (JArr []) = JArr (map JObj txs)"
  shows "\<exists>d' r. sync_transactions env d payload = (d', Inr r) \<and>
            length (ack r) = length txs \<and>
            (\<forall>i<length txs. local_id (ack r ! i) = dict_get (txs ! i) ''local_id'')"
proof -
  obtain d' acks snaps
    where f: "fold (\<lambda>tx st'. sync_tx env st' tx) txs (d, [], []) = (d', acks, snaps)"
    by (metis prod_cases3)
  have m: "map local_id acks = map (\<lambda>tx. dict_get tx ''local_id'') txs"
    using fold_sync_local_ids[OF f] by simp
  have len: "length acks = length txs"
    using arg_cong[OF m, of length] by simp
  have nth: "\<forall>i<length txs. local_id (acks ! i) = dict_get (txs ! i) ''local_id''"
  proof (intro allI impI)
    fix i assume i: "i < length txs"
    have "map local_id acks ! i = map (\<lambda>tx. dict_get tx ''local_id'') txs ! i"
      by (simp only: m)
    with i len show "local_id (acks ! i) = dict_get (txs ! i) ''local_id''" by simp
  qed
  have "sync_transactions env d payload =
          (d', Inr \<lparr>ok = True, ack = acks, updated_products = map snd snaps\<rparr>)"
    by (simp add: sync_transactions_def assms sync_loop_dicts f)
  with len nth show ?thesis by simp
qed

theorem sync_ack_order_witness:
  "dict_get_default (batch [example_tx ''a'' [], [(''total'', JStr ''x'')]]) ''transactions'' (JArr [])
     = JArr (map JObj [example_tx ''a'' [], [(''total'', JStr ''x'')]]) \<and>
   (\<exists>d' r. sync_transactions example_env example_db
               (batch [example_tx ''a'' [], [(''total'', JStr ''x'')]]) = (d', Inr r) \<and>
            length (ack r) = length [example_tx ''a'' [], [(''total'', JStr ''x'')]] \<and>
            (\<forall>i<length [example_tx ''a'' [], [(''total'', JStr ''x'')]].
                local_id (ack r ! i) =
                dict_get ([example_tx ''a'' [], [(''total'', JStr ''x'')]] ! i) ''local_id''))"
proof -
  have h: "dict_get_default (batch [example_tx ''a'' [], [(''total'', JStr ''x'')]])
             ''transactions'' (JArr [])
           = JArr (map JObj [example_tx ''a'' [], [(''total'', JStr ''x'')]])"
    by (simp add: batch_def dict_get_default_def)
  show ?thesis using h sync_ack_order[OF h, of example_env example_db] by simp
qed

lemma binary64_0: "binary64 0 = Fin 0"
  by (simp add: binary64_def)

lemma float_of_int_0: "float_of_int 0 = Inr (Fin 0)"
  by (simp add: float_of_int_def binary64_0)

lemma py_float_msg: "py_float env v = Inl e \<Longrightarrow> str_exn e \<noteq> []"
  by (cases v) (auto simp: float_of_int_def split: pyfloat.splits option.splits)

lemma find_product_update:
  "find_product (Some b) ps = Some p \<Longrightarrow> p_barcode q = b \<Longrightarrow>
   find_product (Some b) (update_product b (\<lambda>_. q) ps) = Some q"
  by (induction ps) (auto split: if_splits)

text \<open>The fold state reached before a transaction decides what it does.\<close>

lemma sync_batch_skip:
  assumes pre: "fold (\<lambda>tx st'. sync_tx env st' tx) pre (d, [], []) = (d1, a1, s1)"
      and fails: "snd (try_body env d1 s1 tx) = Inl e"
  shows "\<exists>d' r r'.
           sync_transactions env d (batch (pre @ tx # post)) = (d', Inr r) \<and>
           sync_transactions env d (batch (pre @ post)) = (d', Inr r') \<and>
           ack r = take (length pre) (ack r') @
                   \<lparr>local_id = dict_get tx ''local_id'', status = ''error'', server_id = None,
                    error = Some (str_exn e)\<rparr> # drop (length pre) (ack r')"
proof -
  let ?F = "fold (\<lambda>tx st'. sync_tx env st' tx)"
  let ?err = "\<lparr>local_id = dict_get tx ''local_id'', status = ''error'', server_id = None,
              error = Some (str_exn e)\<rparr>"
  have len1: "length a1 = length pre"
    using fold_sync_indep[OF pre pre] by auto
  obtain u1 r where tb: "try_body env d1 s1 tx = (u1, r)" by (cases "try_body env d1 s1 tx")
  have "r = Inl e" using fails tb by simp
  with tb have step: "sync_tx env (d1, a1, s1) tx = (d1, a1 @ [?err], u1)"
    by (simp add: sync_tx_def)
  obtain d2 a2 s2 where post1: "?F post (d1, a1 @ [?err], u1) = (d2, a2, s2)" by (metis prod_cases3)
  obtain d3 a3 s3 where post2: "?F post (d1, a1, s1) = (d3, a3, s3)" by (metis prod_cases3)
  from fold_sync_indep[OF post1 post2] obtain new where
    eq: "d2 = d3" "a2 = (a1 @ [?err]) @ new" "a3 = a1 @ new" by blast
  have r1: "sync_transactions env d (batch (pre @ tx # post)) =
              (d2, Inr \<lparr>ok = True, ack = a2, updated_products = map snd s2\<rparr>)"
    by (simp add: sync_transactions_batch pre step post1)
  have r2: "sync_transactions env d (batch (pre @ post)) =
              (d2, Inr \<lparr>ok = True, ack = a3, updated_products = map snd s3\<rparr>)"
    by (simp add: sync_transactions_batch pre post2 eq(1))
  have "a2 = take (length pre) a3 @ ?err # drop (length pre) a3"
    using eq len1 by simp
  with r1 r2 show ?thesis by simp
qed

lemma try_body_total_fails:
  "py_float env (dict_get_default tx ''total'' (JInt 0)) = Inl e \<Longrightarrow> try_body env d s tx = (s, Inl e)"
  by (simp add: try_body_def new_transaction_def and_then_def)

lemma sync_tx_absent_total:
  assumes "map_of tx ''total'' = None"
  shows "sync_tx env st ((''total'', JInt 0) # tx) = sync_tx env st tx"
proof -
  have g: "\<And>k dflt. k \<noteq> ''total'' \<Longrightarrow>
             dict_get_default ((''total'', JInt 0) # tx) k dflt = dict_get_default tx k dflt"
    by (simp add: dict_get_default_def)
  have g': "\<And>k. k \<noteq> ''total'' \<Longrightarrow> dict_get ((''total'', JInt 0) # tx) k = dict_get tx k"
    by (simp add: dict_get_def)
  have t: "dict_get_default ((''total'', JInt 0) # tx) ''total'' (JInt 0) = dict_get_default tx ''total'' (JInt 0)"
    using assms by (simp add: dict_get_default_def)
  have nt: "\<And>d. new_transaction env d ((''total'', JInt 0) # tx) = new_transaction env d tx"
    by (simp add: new_transaction_def t g parse_created_at_def g')
  have ls: "dict_get_default ((''total'', JInt 0) # tx) ''lines'' (JArr []) =
            dict_get_default tx ''lines'' (JArr [])"
    by (simp add: g)
  have "\<And>d s. try_body env d s ((''total'', JInt 0) # tx) = try_body env d s tx"
    by (simp add: try_body_def nt ls cong: sum.case_cong)
  then show ?thesis
    by (cases st) (simp add: sync_tx_def g')
qed

section \<open>A failed transaction leaves the others alone\<close>

text \<open>
  C2. Let the body of the \<^verbatim>\<open>try\<close> raise for the transaction \<open>tx\<close> in the store that
  the transactions before it in the batch have left. Then the endpoint still answers
  the whole batch; the store after the batch is the store that the batch without
  \<open>tx\<close> leaves, so nothing of \<open>tx\<close> (ledger record, lines, stock updates) is kept and
  nothing of the other transactions is lost; the \<^verbatim>\<open>ack\<close> holds an \<^verbatim>\<open>error\<close> entry for
  \<open>tx\<close> at its position, and the entries of the other transactions are those of the
  batch without \<open>tx\<close>: the transactions after \<open>tx\<close> are processed as if it had not
  been there.
\<close>

theorem failed_transaction_isolated:
  assumes "snd (try_body env (fst (sync_transactions env d (batch pre))) [] tx) = Inl e"
  shows "\<exists>d' r r'.
           sync_transactions env d (batch (pre @ tx # post)) = (d', Inr r) \<and>
           sync_transactions env d (batch (pre @ post)) = (d', Inr r') \<and>
           ack r = take (length pre) (ack r') @
                   \<lparr>local_id = dict_get tx ''local_id'', status = ''error'', server_id = None,
                    error = Some (str_exn e)\<rparr> # drop (length pre) (ack r')"
proof -
  obtain d1 a1 s1 where pre: "fold (\<lambda>tx st'. sync_tx env st' tx) pre (d, [], []) = (d1, a1, s1)"
    by (metis prod_cases3)
  have "fst (sync_transactions env d (batch pre)) = d1"
    by (simp add: sync_transactions_batch pre)
  with assms have "snd (try_body env d1 s1 tx) = Inl e"
    using try_body_snaps_indep[of env d1 s1 tx "[]"] by simp
  from sync_batch_skip[OF pre this] show ?thesis .
qed

theorem failed_transaction_isolated_witness:
  "snd (try_body example_env
          (fst (sync_transactions example_env example_db
                  (batch [example_tx ''a'' [example_line ''111'' (JInt 3)]])))
          [] (example_tx ''b'' [example_line ''111'' (JInt 2), JNull]))
     = Inl (no_attribute JNull ''get'') \<and>
   (\<exists>d' r r'.
      sync_transactions example_env example_db
        (batch ([example_tx ''a'' [example_line ''111'' (JInt 3)]] @
                example_tx ''b'' [example_line ''111'' (JInt 2), JNull] #
                [example_tx ''c'' [example_line ''111'' (JInt 1)]])) = (d', Inr r) \<and>
      sync_transactions example_env example_db
        (batch ([example_tx ''a'' [example_line ''111'' (JInt 3)]] @
                [example_tx ''c'' [example_line ''111'' (JInt 1)]])) = (d', Inr r') \<and>
      ack r = take (length [example_tx ''a'' [example_line ''111'' (JInt 3)]]) (ack r') @
              \<lparr>local_id = dict_get (example_tx ''b'' [example_line ''111'' (JInt 2), JNull]) ''local_id'',
               status = ''error'', server_id = None,
               error = Some (str_exn (no_attribute JNull ''get''))\<rparr> #
              drop (length [example_tx ''a'' [example_line ''111'' (JInt 3)]]) (ack r'))"
proof -
  have h: "snd (try_body example_env
          (fst (sync_transactions example_env example_db
                  (batch [example_tx ''a'' [example_line ''111'' (JInt 3)]])))
          [] (example_tx ''b'' [example_line ''111'' (JInt 2), JNull]))
     = Inl (no_attribute JNull ''get'')"
    by code_simp
  show ?thesis
    using h failed_transaction_isolated[OF h, of "[example_tx ''c'' [example_line ''111'' (JInt 1)]]"]
    by blast
qed

section \<open>The entries of the acknowledgement\<close>



section \<open>Stock counts stay non-negative\<close>

lemma find_product_Some:
  "find_product b ps = Some p \<Longrightarrow> p \<in> set ps \<and> b = Some (p_barcode p)"
  by (cases b) (auto simp: find_Some_iff)



lemma update_product_list_all:
  "list_all P ps \<Longrightarrow> P q \<Longrightarrow> list_all P (update_product b (\<lambda>_. q) ps)"
  by (induction ps) auto

lemma update_product_set:
  "set (update_product b (\<lambda>_. q) ps) \<subseteq> insert q (set ps)"
  by (induction ps) auto

lemma store_line_nonneg:
  assumes "store_line env tid line d pending s = (s', Inr (d', pending'))" and "all_nonneg d"
  shows "all_nonneg d'"
proof -
  from store_line_Inr[OF assms(1)] obtain l :: transaction_line where
    c: "case find_product (l_barcode l) (products d) of
          None \<Rightarrow> products d' = products d \<and> s' = s \<and> pending' = None
        | Some p \<Rightarrow>
            products d' = update_product (p_barcode p)
               (\<lambda>_. p\<lparr>p_qty := Some (max 0 (qty_or_0 p - l_qty l))\<rparr>) (products d) \<and>
            s' = AList.update (p_barcode p) (p\<lparr>p_qty := Some (max 0 (qty_or_0 p - l_qty l))\<rparr>) s \<and>
            pending' = Some (max 0 (qty_or_0 p - l_qty l))"
    by auto
  show ?thesis
  proof (cases "find_product (l_barcode l) (products d)")
    case None
    with c assms(2) show ?thesis by (simp add: all_nonneg_def)
  next
    case (Some p)
    have "0 \<le> qty_or_0 (p\<lparr>p_qty := Some (max 0 (qty_or_0 p - l_qty l))\<rparr>)"
      by (simp add: qty_or_0_def)
    with c Some assms(2) show ?thesis
      by (simp add: all_nonneg_def update_product_list_all)
  qed
qed

lemma store_lines_nonneg:
  "store_lines env tid ls d pending s = (s', Inr (d', pending')) \<Longrightarrow> all_nonneg d \<Longrightarrow>
   all_nonneg d'"
proof (induction ls arbitrary: d pending s)
  case Nil
  then show ?case by simp
next
  case (Cons line ls)
  obtain s1 r1 where e1: "store_line env tid line d pending s = (s1, r1)"
    by (cases "store_line env tid line d pending s")
  show ?case
  proof (cases r1)
    case (Inl e)
    with Cons.prems e1 show ?thesis by simp
  next
    case (Inr x)
    obtain d1 p1 where x: "x = (d1, p1)" by (cases x)
    with Inr Cons.prems e1 have sl: "store_lines env tid ls d1 p1 s1 = (s', Inr (d', pending'))"
      by simp
    from store_line_nonneg[OF e1[unfolded Inr x] Cons.prems(2)] have "all_nonneg d1" .
    from Cons.IH[OF sl this] show ?thesis .
  qed
qed

lemma sync_tx_nonneg:
  assumes "sync_tx env (d, acks, s) tx = (d', acks', s')" and "all_nonneg d"
  shows "all_nonneg d'"
proof -
  obtain u r where tb: "try_body env d s tx = (u, r)" by (cases "try_body env d s tx")
  show ?thesis
  proof (cases r)
    case (Inl e)
    with assms tb show ?thesis by (auto simp: sync_tx_def)
  next
    case (Inr x)
    obtain d1 tid where x: "x = (d1, tid)" by (cases x)
    from try_body_Inr[OF tb[unfolded Inr x]] obtain t ls pending where
      sl: "store_lines env tid ls (d\<lparr>transactions := transactions d @ [t]\<rparr>) None s =
             (u, Inr (d1, pending))"
      by blast
    have "all_nonneg (d\<lparr>transactions := transactions d @ [t]\<rparr>)"
      using assms(2) by (simp add: all_nonneg_def)
    from store_lines_nonneg[OF sl this] have "all_nonneg d1" .
    moreover from assms tb Inr x have "d' = d1" by (auto simp: sync_tx_def)
    ultimately show ?thesis by simp
  qed
qed

lemma sync_loop_nonneg:
  "all_nonneg d \<Longrightarrow> all_nonneg (fst (sync_loop env txs (d, acks, s)))"
proof (induction txs arbitrary: d acks s)
  case Nil
  then show ?case by simp
next
  case (Cons v txs)
  show ?case
  proof (cases v)
    case (JObj tx)
    obtain d1 a1 s1 where st: "sync_tx env (d, acks, s) tx = (d1, a1, s1)" by (metis prod_cases3)
    from sync_tx_nonneg[OF st Cons.prems] have "all_nonneg d1" .
    from Cons.IH[OF this] show ?thesis by (simp add: JObj st)
  qed (use Cons.prems in simp_all)
qed

lemma sync_transactions_nonneg:
  "all_nonneg d \<Longrightarrow> all_nonneg (fst (sync_transactions env d payload))"
proof -
  assume a: "all_nonneg d"
  show ?thesis
  proof (cases "py_iter (dict_get_default payload ''transactions'' (JArr []))")
    case (Inl e)
    with a show ?thesis by (simp add: sync_transactions_def)
  next
    case (Inr txs)
    have "fst (sync_transactions env d payload) = fst (sync_loop env txs (d, [], []))"
      by (simp add: sync_transactions_def Inr split: prod.splits sum.splits)
    with sync_loop_nonneg[OF a] show ?thesis by simp
  qed
qed

lemma if_in_Inr_qty:
  assumes "if_in data ''qty'' (\<lambda>v. and_then (py_int env (py_or v (JInt 0))) (\<lambda>n. Inr (Some n))) old = Inr q"
      and "supplied_qty_nonneg env data" and "case old of None \<Rightarrow> True | Some n \<Rightarrow> 0 \<le> n"
  shows "case q of None \<Rightarrow> True | Some n \<Rightarrow> 0 \<le> n"
  using assms
  by (auto simp: if_in_def supplied_qty_nonneg_def and_then_Inr split: option.splits sum.splits)

lemma bind_qty_Inr: "bind_qty q = Inr q' \<Longrightarrow> q' = q"
  by (auto simp: bind_qty_def and_then_Inr sql_int_Inr split: option.splits)

lemma assign_fields_nonneg:
  assumes "assign_fields env data p = Inr p'" and "supplied_qty_nonneg env data" and "0 \<le> qty_or_0 p"
  shows "0 \<le> qty_or_0 p'"
proof -
  from assms(1) obtain q q' where
    q: "if_in data ''qty'' (\<lambda>v. and_then (py_int env (py_or v (JInt 0))) (\<lambda>n. Inr (Some n))) (p_qty p) = Inr q"
    and b: "if_in data ''qty'' (\<lambda>_. bind_qty q) q = Inr q'"
    and p': "p_qty p' = q'"
    by (auto simp: assign_fields_def and_then_Inr)
  from b have "q' = q"
    by (auto simp: if_in_def dest: bind_qty_Inr split: option.splits)
  with p' if_in_Inr_qty[OF q assms(2)] assms(3) show ?thesis
    by (auto simp: qty_or_0_def split: option.splits)
qed

lemma create_or_update_product_nonneg:
  assumes "all_nonneg d" and "supplied_qty_nonneg env data"
  shows "all_nonneg (fst (create_or_update_product env d data))"
proof (cases "stripped (dict_get data ''barcode'')")
  case (Inl e)
  with assms(1) show ?thesis by (simp add: create_or_update_product_def)
next
  case (Inr barcode)
  show ?thesis
  proof (cases "barcode = []")
    case True
    with Inr assms(1) show ?thesis by (simp add: create_or_update_product_def)
  next
    case ne: False
    show ?thesis
    proof (cases "find_product (Some barcode) (products d)")
      case None
      show ?thesis
      proof (cases "assign_fields env data (new_product env d barcode)")
        case (Inl e)
        with Inr ne None assms(1) show ?thesis by (simp add: create_or_update_product_def)
      next
        case p: (Inr p)
        have "0 \<le> qty_or_0 (new_product env d barcode)"
          by (simp add: new_product_def qty_or_0_def)
        from assign_fields_nonneg[OF p assms(2) this] assms(1) Inr ne None p show ?thesis
          by (simp add: create_or_update_product_def all_nonneg_def)
      qed
    next
      case (Some p0)
      from find_product_Some[OF Some] assms(1) have p0: "0 \<le> qty_or_0 p0"
        by (auto simp: all_nonneg_def list_all_iff)
      show ?thesis
      proof (cases "assign_fields env data p0")
        case (Inl e)
        with Inr ne Some assms(1) show ?thesis by (simp add: create_or_update_product_def)
      next
        case p: (Inr p)
        from assign_fields_nonneg[OF p assms(2) p0] assms(1) Inr ne Some p show ?thesis
          by (simp add: create_or_update_product_def all_nonneg_def update_product_list_all)
      qed
    qed
  qed
qed

text \<open>
  C1, as the code has it. The sync endpoint keeps every stock count non-negative:
  line 250 writes \<^verbatim>\<open>max(0, ...)\<close>, and a rollback restores counts that were
  non-negative. The product endpoint stores the count it is given: it keeps the counts
  non-negative when the supplied \<^verbatim>\<open>qty\<close>, as \<^verbatim>\<open>int()\<close> reads it, is not negative (or
  none is supplied). So after any sequence of sync requests and of such product
  requests, from a store without negative counts, no product has a negative count.
\<close>

theorem stock_nonneg_preserved:
  assumes "all_nonneg d" and "list_all upserts_nonneg ops"
  shows "all_nonneg (run d ops)"
  using assms
proof (induction ops arbitrary: d)
  case Nil
  then show ?case by (simp add: run_def)
next
  case (Cons op ops)
  obtain env x where op: "op = (env, x)" by (cases op)
  have "all_nonneg (apply_operation d op)"
  proof (cases x)
    case (Sync payload)
    with op sync_transactions_nonneg[OF Cons.prems(1)] show ?thesis by simp
  next
    case (Upsert data)
    with op Cons.prems(2) have "supplied_qty_nonneg env data" by simp
    from create_or_update_product_nonneg[OF Cons.prems(1) this] op Upsert show ?thesis by simp
  qed
  moreover have "list_all upserts_nonneg ops" using Cons.prems(2) by simp
  ultimately have "all_nonneg (run (apply_operation d op) ops)" by (rule Cons.IH)
  then show ?case by (simp add: run_def)
qed

theorem stock_nonneg_preserved_witness:
  "all_nonneg example_db \<and>
   list_all upserts_nonneg
     [(example_env, Sync (batch [example_tx ''a'' [example_line ''111'' (JInt 30)]])),
      (example_env, Upsert [(''barcode'', JStr ''222''), (''qty'', JInt 5)])] \<and>
   all_nonneg (run example_db
     [(example_env, Sync (batch [example_tx ''a'' [example_line ''111'' (JInt 30)]])),
      (example_env, Upsert [(''barcode'', JStr ''222''), (''qty'', JInt 5)])])"
proof -
  have h1: "all_nonneg example_db" by code_simp
  have h2: "list_all upserts_nonneg
     [(example_env, Sync (batch [example_tx ''a'' [example_line ''111'' (JInt 30)]])),
      (example_env, Upsert [(''barcode'', JStr ''222''), (''qty'', JInt 5)])]"
    by code_simp
  show ?thesis using h1 h2 stock_nonneg_preserved[OF h1 h2] by simp
qed

text \<open>
  C1 as stated fails: a product request with a negative \<^verbatim>\<open>qty\<close> stores it (line 202
  has no floor).
\<close>

theorem negative_stock_counterexample:
  "all_nonneg example_db \<and>
   \<not> all_nonneg (run example_db
        [(example_env, Upsert [(''barcode'', JStr ''111''), (''qty'', JInt (- 5))])])"
  by code_simp

section \<open>The total of a transaction\<close>

text \<open>
  C5, as the code has it. A \<^verbatim>\<open>total\<close> that \<^verbatim>\<open>float()\<close> cannot read (a text that is no
  number, \<^verbatim>\<open>null\<close>, a list) aborts that transaction only: the error text is not empty,
  the \<^verbatim>\<open>ack\<close> holds an \<^verbatim>\<open>error\<close> entry with it at the transaction's position, and the
  store and the other entries are those of the batch without the transaction, so the
  ledger has no record of it. An absent \<^verbatim>\<open>total\<close> is read as 0 (line 225 gives
  \<^verbatim>\<open>tx.get\<close> the default 0): the batch is processed as if the transaction said
  \<^verbatim>\<open>total: 0\<close>.
\<close>

theorem unparsable_total_reported:
  "(py_float env (dict_get_default tx ''total'' (JInt 0)) = Inl e \<longrightarrow>
      str_exn e \<noteq> [] \<and>
      (\<exists>d' r r'.
         sync_transactions env d (batch (pre @ tx # post)) = (d', Inr r) \<and>
         sync_transactions env d (batch (pre @ post)) = (d', Inr r') \<and>
         ack r = take (length pre) (ack r') @
                 \<lparr>local_id = dict_get tx ''local_id'', status = ''error'', server_id = None,
                  error = Some (str_exn e)\<rparr> # drop (length pre) (ack r'))) \<and>
   (map_of tx ''total'' = None \<longrightarrow>
      sync_transactions env d (batch (pre @ tx # post)) =
      sync_transactions env d (batch (pre @ ((''total'', JInt 0) # tx) # post)))"
proof (intro conjI impI)
  assume f: "py_float env (dict_get_default tx ''total'' (JInt 0)) = Inl e"
  show "str_exn e \<noteq> []" using f by (rule py_float_msg)
  obtain d1 a1 s1 where pre: "fold (\<lambda>tx st'. sync_tx env st' tx) pre (d, [], []) = (d1, a1, s1)"
    by (metis prod_cases3)
  have "snd (try_body env d1 s1 tx) = Inl e" using try_body_total_fails[OF f] by simp
  from sync_batch_skip[OF pre this]
  show "\<exists>d' r r'.
         sync_transactions env d (batch (pre @ tx # post)) = (d', Inr r) \<and>
         sync_transactions env d (batch (pre @ post)) = (d', Inr r') \<and>
         ack r = take (length pre) (ack r') @
                 \<lparr>local_id = dict_get tx ''local_id'', status = ''error'', server_id = None,
                  error = Some (str_exn e)\<rparr> # drop (length pre) (ack r')" .
next
  assume "map_of tx ''total'' = None"
  from sync_tx_absent_total[OF this]
  show "sync_transactions env d (batch (pre @ tx # post)) =
        sync_transactions env d (batch (pre @ ((''total'', JInt 0) # tx) # post))"
    by (simp add: sync_transactions_batch)
qed

theorem unparsable_total_reported_witness:
  "py_float example_env
     (dict_get_default [(''local_id'', JStr ''b''), (''total'', JStr ''abc'')] ''total'' (JInt 0))
     = Inl (ValueError (''could not convert string to float: '' @ quoted ''abc'')) \<and>
   map_of [(''local_id'', JStr ''a'')] ''total'' = None \<and>
   (\<exists>d' r r'.
      sync_transactions example_env example_db
        (batch ([example_tx ''a'' []] @ [(''local_id'', JStr ''b''), (''total'', JStr ''abc'')] # []))
        = (d', Inr r) \<and>
      sync_transactions example_env example_db (batch ([example_tx ''a'' []] @ [])) = (d', Inr r') \<and>
      ack r = take (length [example_tx ''a'' []]) (ack r') @
              \<lparr>local_id = dict_get [(''local_id'', JStr ''b''), (''total'', JStr ''abc'')] ''local_id'',
               status = ''error'', server_id = None,
               error = Some (str_exn (ValueError (''could not convert string to float: '' @ quoted ''abc'')))\<rparr>
              # drop (length [example_tx ''a'' []]) (ack r')) \<and>
   sync_transactions example_env example_db (batch ([] @ [(''local_id'', JStr ''a'')] # [])) =
   sync_transactions example_env example_db
     (batch ([] @ ((''total'', JInt 0) # [(''local_id'', JStr ''a'')]) # []))"
proof -
  have h1: "py_float example_env
     (dict_get_default [(''local_id'', JStr ''b''), (''total'', JStr ''abc'')] ''total'' (JInt 0))
     = Inl (ValueError (''could not convert string to float: '' @ quoted ''abc''))"
    by (simp add: dict_get_default_def example_env_def)
  have h2: "map_of [(''local_id'', JStr ''a'')] ''total'' = None"
    by simp
  show ?thesis
    using h1 h2
      unparsable_total_reported[of example_env "[(''local_id'', JStr ''b''), (''total'', JStr ''abc'')]"
        "ValueError (''could not convert string to float: '' @ quoted ''abc'')"
        example_db "[example_tx ''a'' []]" "[]"]
      unparsable_total_reported[of example_env "[(''local_id'', JStr ''a'')]" _ example_db "[]" "[]"]
    by blast
qed

text \<open>
  C5 as stated fails for an absent \<^verbatim>\<open>total\<close>: the transaction is committed with the
  total 0 and acknowledged with \<^verbatim>\<open>ok\<close>.
\<close>

theorem absent_total_counterexample:
  "sync_transactions example_env example_db (batch [[(''local_id'', JStr ''a'')]]) =
     (example_db\<lparr>transactions := [\<lparr>t_id = 1, t_created_at = 0, t_total = Some (Fin 0),
                                    t_payment_type = Some ''cash'', t_synced = True\<rparr>]\<rparr>,
      Inr \<lparr>ok = True,
           ack = [\<lparr>local_id = JStr ''a'', status = ''ok'', server_id = Some 1, error = None\<rparr>],
           updated_products = []\<rparr>)"
  by code_simp

section \<open>The snapshots of updated products\<close>

lemma find_product_update_other:
  "k \<noteq> b \<Longrightarrow> p_barcode q = b \<Longrightarrow>
   find_product (Some k) (update_product b (\<lambda>_. q) ps) = find_product (Some k) ps"
  by (induction ps) auto

lemma store_line_current:
  assumes "store_line env tid line d pending s = (s', Inr (d', pending'))" and "snaps_current d s"
  shows "snaps_current d' s'"
proof -
  from store_line_Inr[OF assms(1)] obtain l :: transaction_line where
    c: "case find_product (l_barcode l) (products d) of
          None \<Rightarrow> products d' = products d \<and> s' = s \<and> pending' = None
        | Some p \<Rightarrow>
            products d' = update_product (p_barcode p)
               (\<lambda>_. p\<lparr>p_qty := Some (max 0 (qty_or_0 p - l_qty l))\<rparr>) (products d) \<and>
            s' = AList.update (p_barcode p) (p\<lparr>p_qty := Some (max 0 (qty_or_0 p - l_qty l))\<rparr>) s \<and>
            pending' = Some (max 0 (qty_or_0 p - l_qty l))"
    by auto
  show ?thesis
  proof (cases "find_product (l_barcode l) (products d)")
    case None
    with c assms(2) show ?thesis by (simp add: snaps_current_def)
  next
    case (Some p)
    let ?b = "p_barcode p"
    let ?q = "p\<lparr>p_qty := Some (max 0 (qty_or_0 p - l_qty l))\<rparr>"
    from c Some have pd: "products d' = update_product ?b (\<lambda>_. ?q) (products d)"
      and s': "s' = AList.update ?b ?q s" by simp_all
    from find_product_Some[OF Some] have lb: "l_barcode l = Some ?b" by simp
    have fb: "find_product (Some ?b) (products d) = Some p" using Some lb by simp
    have d: "distinct (map fst s')" unfolding s' using assms(2)
      by (simp add: snaps_current_def distinct_update)
    have "\<forall>k v. map_of s' k = Some v \<longrightarrow> p_barcode v = k \<and> find_product (Some k) (products d') = Some v"
    proof (intro allI impI)
      fix k v assume m: "map_of s' k = Some v"
      show "p_barcode v = k \<and> find_product (Some k) (products d') = Some v"
      proof (cases "k = ?b")
        case True
        with m have "v = ?q" unfolding s' by (simp add: update_conv')
        with True show ?thesis unfolding pd using find_product_update[OF fb, of ?q] by simp
      next
        case False
        with m have "map_of s k = Some v" unfolding s' by (simp add: update_conv')
        with assms(2) have "p_barcode v = k" "find_product (Some k) (products d) = Some v"
          by (simp_all add: snaps_current_def)
        with False show ?thesis unfolding pd
          using find_product_update_other[of k ?b ?q "products d"] by simp
      qed
    qed
    with d show ?thesis by (simp add: snaps_current_def)
  qed
qed

lemma store_lines_current:
  "store_lines env tid ls d pending s = (s', Inr (d', pending')) \<Longrightarrow> snaps_current d s \<Longrightarrow>
   snaps_current d' s'"
proof (induction ls arbitrary: d pending s)
  case Nil
  then show ?case by simp
next
  case (Cons line ls)
  obtain s1 r1 where e1: "store_line env tid line d pending s = (s1, r1)"
    by (cases "store_line env tid line d pending s")
  show ?case
  proof (cases r1)
    case (Inl e)
    with Cons.prems e1 show ?thesis by simp
  next
    case (Inr x)
    obtain d1 p1 where x: "x = (d1, p1)" by (cases x)
    with Inr Cons.prems e1 have sl: "store_lines env tid ls d1 p1 s1 = (s', Inr (d', pending'))"
      by simp
    from store_line_current[OF e1[unfolded Inr x] Cons.prems(2)] have "snaps_current d1 s1" .
    from Cons.IH[OF sl this] show ?thesis .
  qed
qed

lemma sync_tx_current:
  assumes "sync_tx env (d, acks, s) tx = (d', acks @ [a], s')" and "status a = ''ok''"
      and "snaps_current d s"
  shows "snaps_current d' s'"
proof -
  obtain u r where tb: "try_body env d s tx = (u, r)" by (cases "try_body env d s tx")
  show ?thesis
  proof (cases r)
    case (Inl e)
    with assms(1,2) tb show ?thesis by (auto simp: sync_tx_def)
  next
    case (Inr x)
    obtain d1 tid where x: "x = (d1, tid)" by (cases x)
    from try_body_Inr[OF tb[unfolded Inr x]] obtain t ls pending where
      sl: "store_lines env tid ls (d\<lparr>transactions := transactions d @ [t]\<rparr>) None s =
             (u, Inr (d1, pending))"
      by blast
    have "snaps_current (d\<lparr>transactions := transactions d @ [t]\<rparr>) s"
      using assms(3) by (simp add: snaps_current_def)
    from store_lines_current[OF sl this] have "snaps_current d1 u" .
    moreover from assms(1) tb Inr x have "d' = d1" "s' = u" by (auto simp: sync_tx_def)
    ultimately show ?thesis by simp
  qed
qed

lemma fold_sync_current:
  assumes "fold (\<lambda>tx st'. sync_tx env st' tx) txs (d, acks, s) = (d', acks @ new, s')"
      and "\<forall>a\<in>set new. status a = ''ok''" and "snaps_current d s"
  shows "snaps_current d' s'"
  using assms
proof (induction txs arbitrary: d acks s new)
  case Nil
  then show ?case by simp
next
  case (Cons tx txs)
  obtain d1 a s1 where st: "sync_tx env (d, acks, s) tx = (d1, acks @ [a], s1)"
    using sync_tx_ack by blast
  have f: "fold (\<lambda>tx st'. sync_tx env st' tx) txs (d1, acks @ [a], s1) = (d', acks @ new, s')"
    using Cons.prems(1) st by simp
  from fold_sync_indep[OF f f] obtain new' where n: "acks @ new = (acks @ [a]) @ new'" by blast
  then have new: "new = a # new'" by simp
  with Cons.prems(2) have ok: "status a = ''ok''" and oks: "\<forall>a\<in>set new'. status a = ''ok''"
    by simp_all
  from sync_tx_current[OF st ok Cons.prems(3)] have c1: "snaps_current d1 s1" .
  from f n have "fold (\<lambda>tx st'. sync_tx env st' tx) txs (d1, acks @ [a], s1) = (d', (acks @ [a]) @ new', s')"
    by simp
  from Cons.IH[OF this oks c1] show ?case .
qed

text \<open>
  When every transaction of the batch is committed, \<^verbatim>\<open>updated_products\<close> has one
  snapshot for a barcode, and each snapshot is the product that the store has for its
  barcode after the batch.
\<close>

lemma snapshots_final_when_all_commit:
  assumes "sync_transactions env d (batch txs) = (d', Inr r)"
      and "\<forall>a\<in>set (ack r). status a = ''ok''"
  shows "distinct (map p_barcode (updated_products r)) \<and>
         (\<forall>v\<in>set (updated_products r). find_product (Some (p_barcode v)) (products d') = Some v)"
proof -
  obtain d1 acks snaps where
    f: "fold (\<lambda>tx st'. sync_tx env st' tx) txs (d, [], []) = (d1, acks, snaps)"
    by (metis prod_cases3)
  with assms(1) have d': "d' = d1" and r: "ack r = acks" "updated_products r = map snd snaps"
    by (auto simp: sync_transactions_batch)
  have "snaps_current d []" by (simp add: snaps_current_def)
  from fold_sync_current[of env txs d "[]" "[]" d1 acks snaps] f assms(2) r(1) this
  have c: "snaps_current d1 snaps" by simp
  then have dist: "distinct (map fst snaps)"
    and cur: "\<forall>k v. map_of snaps k = Some v \<longrightarrow> p_barcode v = k \<and> find_product (Some k) (products d1) = Some v"
    by (simp_all add: snaps_current_def)
  have key: "\<forall>kv\<in>set snaps. p_barcode (snd kv) = fst kv \<and>
                find_product (Some (fst kv)) (products d1) = Some (snd kv)"
  proof
    fix kv assume "kv \<in> set snaps"
    then have "(fst kv, snd kv) \<in> set snaps" by simp
    with dist have "map_of snaps (fst kv) = Some (snd kv)" by (rule map_of_is_SomeI)
    with cur show "p_barcode (snd kv) = fst kv \<and> find_product (Some (fst kv)) (products d1) = Some (snd kv)"
      by blast
  qed
  have "map p_barcode (map snd snaps) = map fst snaps"
    using key by (induction snaps) auto
  with dist have "distinct (map p_barcode (map snd snaps))" by (simp only:)
  then have "distinct (map p_barcode (updated_products r))" by (simp only: r(2))
  moreover have "\<forall>v\<in>set (updated_products r). find_product (Some (p_barcode v)) (products d') = Some v"
    using key by (auto simp: r(2) d')
  ultimately show ?thesis by simp
qed

text \<open>
  C4 at a failing input. The store holds the product 111 with 10 in stock; the batch
  has one transaction with two lines on 111, the first with \<^verbatim>\<open>qty\<close> 3, the second
  with a \<^verbatim>\<open>qty\<close> that is no number. The second line raises after the first has put a
  snapshot with 7 in stock into \<^verbatim>\<open>updated_products\<close>; the rollback restores the store,
  where the product still has 10, and the response reports the snapshot with 7.
\<close>

theorem rolled_back_snapshot_reported:
  "sync_transactions example_env example_db
     (batch [example_tx ''a'' [example_line ''111'' (JInt 3), example_line ''111'' (JStr ''abc'')]]) =
     (example_db,
      Inr \<lparr>ok = True,
           ack = [\<lparr>local_id = JStr ''a'', status = ''error'', server_id = None,
                   error = Some (''invalid literal for int() with base 10: '' @ quoted ''abc'')\<rparr>],
           updated_products = [example_product\<lparr>p_qty := Some 7\<rparr>]\<rparr>)"
  by code_simp

section \<open>Lines whose barcode matches no product\<close>














section \<open>Two sales of one product\<close>

text \<open>
  The transaction of one sale, on a product that the store has, when the database
  takes the quantity and the new stock count.
\<close>

lemma sync_tx_sale:
  assumes "find_product (Some b) (products d) = Some p"
      and "int64 q" and "int64 (max 0 (qty_or_0 p - q))"
  shows "sync_tx env (d, acks, snaps) (sale lid b q) =
     (d\<lparr>transactions := transactions d @
            [\<lparr>t_id = new_id (map t_id (transactions d)), t_created_at = utcnow env,
              t_total = Some (Fin 0), t_payment_type = Some ''cash'', t_synced = True\<rparr>],
        transaction_lines := transaction_lines d @
            [\<lparr>l_id = new_id (map l_id (transaction_lines d)),
              l_transaction_id = new_id (map t_id (transactions d)),
              l_barcode = Some b, l_name = None, l_qty = q, l_price = Some (Fin 0),
              l_cost = Some (Fin 0)\<rparr>],
        products := update_product b (\<lambda>_. p\<lparr>p_qty := Some (max 0 (qty_or_0 p - q))\<rparr>) (products d)\<rparr>,
      acks @ [\<lparr>local_id = lid, status = ''ok'',
               server_id = Some (new_id (map t_id (transactions d))), error = None\<rparr>],
      AList.update b (p\<lparr>p_qty := Some (max 0 (qty_or_0 p - q))\<rparr>) snaps)"
proof -
  have b: "p_barcode p = b" using find_product_Some[OF assms(1)] by simp
  show ?thesis
    using assms b
    by (simp add: sync_tx_def try_body_def new_transaction_def store_line_def new_line_def
        and_then_def sale_def dict_get_def dict_get_default_def parse_created_at_def
        float_of_int_0 flush_stock_def sql_int_def Let_def)
qed

text \<open>
  C7. The store has a product with the barcode \<open>b\<close> and \<open>q\<close> in stock; the batch has
  two transactions, each with one line on \<open>b\<close>, with the quantities \<open>a\<close> and \<open>c\<close>,
  neither negative (all three are numbers of the database). Then each decrement is
  floored at zero on its own: the first transaction alone leaves \<open>max 0 (q - a)\<close> in
  stock, and the batch of both leaves \<open>max 0 (max 0 (q - a) - c)\<close>, which is
  \<open>max 0 (q - a - c)\<close>; both transactions are acknowledged with \<^verbatim>\<open>ok\<close>, and
  \<^verbatim>\<open>updated_products\<close> holds the product once, with the final stock count. With 10 in
  stock and the quantities 4 and 8 (Scenario B) the first line leaves 6 and the second
  leaves 0.
\<close>

theorem two_sales_floor:
  assumes "find_product (Some b) (products d) = Some p" and "p_qty p = Some q" and "q < 2 ^ 63"
      and "0 \<le> a" and "a < 2 ^ 63" and "0 \<le> c" and "c < 2 ^ 63"
  shows "\<exists>d1 r1 d2 r.
           sync_transactions env d (batch [sale lid1 b a]) = (d1, Inr r1) \<and>
           map status (ack r1) = [''ok''] \<and>
           find_product (Some b) (products d1) = Some (p\<lparr>p_qty := Some (max 0 (q - a))\<rparr>) \<and>
           updated_products r1 = [p\<lparr>p_qty := Some (max 0 (q - a))\<rparr>] \<and>
           sync_transactions env d (batch [sale lid1 b a, sale lid2 b c]) = (d2, Inr r) \<and>
           map status (ack r) = [''ok'', ''ok''] \<and>
           find_product (Some b) (products d2) =
             Some (p\<lparr>p_qty := Some (max 0 (max 0 (q - a) - c))\<rparr>) \<and>
           max 0 (max 0 (q - a) - c) = max 0 (q - a - c) \<and>
           updated_products r = [p\<lparr>p_qty := Some (max 0 (q - a - c))\<rparr>]"
proof -
  have b: "p_barcode p = b" using find_product_Some[OF assms(1)] by simp
  define n1 where "n1 = max 0 (q - a)"
  define n2 where "n2 = max 0 (n1 - c)"
  let ?p1 = "p\<lparr>p_qty := Some n1\<rparr>"
  let ?p2 = "p\<lparr>p_qty := Some n2\<rparr>"
  have qa: "qty_or_0 p = q" using assms(2) by (simp add: qty_or_0_def)
  have ia: "int64 a" and ic: "int64 c" using assms(4-7) by (simp_all add: int64_def)
  have i1: "int64 (max 0 (qty_or_0 p - a))"
    using assms(3,4) by (auto simp: qa int64_def)
  have n1: "0 \<le> n1" "n1 < 2 ^ 63" using assms(3,4) by (auto simp: n1_def)
  have q1: "qty_or_0 ?p1 = n1" by (simp add: qty_or_0_def)
  have i2: "int64 (max 0 (qty_or_0 ?p1 - c))"
    using n1 assms(6) by (auto simp: q1 int64_def)
  have eq: "n2 = max 0 (q - a - c)" using assms(4,6) by (auto simp: n2_def n1_def)
  obtain d1 a1 s1 where st1: "sync_tx env (d, [], []) (sale lid1 b a) = (d1, a1, s1)"
    by (metis prod_cases3)
  from st1 have d1: "products d1 = update_product b (\<lambda>_. ?p1) (products d)"
    and a1: "map status a1 = [''ok'']" and s1: "s1 = [(b, ?p1)]"
    unfolding sync_tx_sale[OF assms(1) ia i1] qa n1_def by auto
  have f1: "find_product (Some b) (products d1) = Some ?p1"
    unfolding d1 using find_product_update[OF assms(1), of ?p1] b by simp
  have u2: "?p1\<lparr>p_qty := Some (max 0 (qty_or_0 ?p1 - c))\<rparr> = ?p2"
    by (simp add: q1 n2_def)
  obtain d2 a2 s2 where st2: "sync_tx env (d1, a1, s1) (sale lid2 b c) = (d2, a2, s2)"
    by (metis prod_cases3)
  from st2 have d2: "products d2 = update_product b (\<lambda>_. ?p2) (products d1)"
    and a2: "map status a2 = [''ok'', ''ok'']" and s2: "s2 = [(b, ?p2)]"
    unfolding sync_tx_sale[OF f1 ic i2] u2 using a1 s1 by auto
  have f2: "find_product (Some b) (products d2) = Some ?p2"
    unfolding d2 using find_product_update[OF f1, of ?p2] b by simp
  have r1: "sync_transactions env d (batch [sale lid1 b a]) =
          (d1, Inr \<lparr>ok = True, ack = a1, updated_products = map snd s1\<rparr>)"
    by (simp add: sync_transactions_batch st1)
  have r2: "sync_transactions env d (batch [sale lid1 b a, sale lid2 b c]) =
          (d2, Inr \<lparr>ok = True, ack = a2, updated_products = map snd s2\<rparr>)"
    by (simp add: sync_transactions_batch st1 st2)
  let ?r1 = "\<lparr>ok = True, ack = a1, updated_products = map snd s1\<rparr>"
  let ?r2 = "\<lparr>ok = True, ack = a2, updated_products = map snd s2\<rparr>"
  have main: "sync_transactions env d (batch [sale lid1 b a]) = (d1, Inr ?r1) \<and>
         map status (ack ?r1) = [''ok''] \<and>
         find_product (Some b) (products d1) = Some (p\<lparr>p_qty := Some (max 0 (q - a))\<rparr>) \<and>
         updated_products ?r1 = [p\<lparr>p_qty := Some (max 0 (q - a))\<rparr>] \<and>
         sync_transactions env d (batch [sale lid1 b a, sale lid2 b c]) = (d2, Inr ?r2) \<and>
         map status (ack ?r2) = [''ok'', ''ok''] \<and>
         find_product (Some b) (products d2) =
           Some (p\<lparr>p_qty := Some (max 0 (max 0 (q - a) - c))\<rparr>) \<and>
         max 0 (max 0 (q - a) - c) = max 0 (q - a - c) \<and>
         updated_products ?r2 = [p\<lparr>p_qty := Some (max 0 (q - a - c))\<rparr>]"
    using r1 r2 a1 a2 f1 f2 s1 s2 eq by (simp add: n1_def n2_def)
  show ?thesis
    by (rule exI[of _ d1], rule exI[of _ ?r1], rule exI[of _ d2], rule exI[of _ ?r2], rule main)
qed

theorem two_sales_floor_witness:
  "find_product (Some ''111'') (products example_db) = Some example_product \<and>
   p_qty example_product = Some 10 \<and>
   (10::int) < 2 ^ 63 \<and> (0::int) \<le> 4 \<and> (4::int) < 2 ^ 63 \<and> (0::int) \<le> 8 \<and> (8::int) < 2 ^ 63 \<and>
   (\<exists>d1 r1 d2 r.
      sync_transactions example_env example_db (batch [sale (JStr ''a'') ''111'' 4]) = (d1, Inr r1) \<and>
      map status (ack r1) = [''ok''] \<and>
      find_product (Some ''111'') (products d1) = Some (example_product\<lparr>p_qty := Some 6\<rparr>) \<and>
      updated_products r1 = [example_product\<lparr>p_qty := Some 6\<rparr>] \<and>
      sync_transactions example_env example_db
        (batch [sale (JStr ''a'') ''111'' 4, sale (JStr ''b'') ''111'' 8]) = (d2, Inr r) \<and>
      map status (ack r) = [''ok'', ''ok''] \<and>
      find_product (Some ''111'') (products d2) = Some (example_product\<lparr>p_qty := Some 0\<rparr>) \<and>
      updated_products r = [example_product\<lparr>p_qty := Some 0\<rparr>])"
proof -
  have h1: "find_product (Some ''111'') (products example_db) = Some example_product"
    by (simp add: example_db_def example_product_def)
  have h2: "p_qty example_product = Some 10"
    by (simp add: example_product_def)
  have h3: "(10::int) < 2 ^ 63" "(0::int) \<le> 4" "(4::int) < 2 ^ 63" "(0::int) \<le> 8" "(8::int) < 2 ^ 63"
    by simp_all
  show ?thesis
    using h1 h2 h3 two_sales_floor[OF h1 h2 h3, of example_env "JStr ''a''" "JStr ''b''"] by simp
qed

section \<open>The ledger holds what was submitted\<close>













lemma exact_number_53_bits: "\<bar>n\<bar> \<le> 2 ^ 53 \<Longrightarrow> exact_number (JInt n)"
  by (simp add: exact_number_def binary64_of_int)






section \<open>The reorder suggestion\<close>

lemma int_truediv_Inr:
  "int_truediv a b = Inr f \<Longrightarrow> \<exists>x. f = Fin x \<and> binary64 (of_int a / of_int b) = Fin x \<and> b \<noteq> 0"
  by (cases "binary64 (of_int a / of_int b)") (auto simp: int_truediv_def split: if_splits)

lemma suggested_reorder_Fin:
  assumes "suggested_reorder p (Fin a) = Inr k"
  shows "if 0 < a
         then \<exists>x q. binary64 (a * 14) = Fin x \<and> p_qty p = Some q \<and> k = max 0 (max (trunc x) 5 - q)
         else k = 0"
proof (cases "0 < a")
  case False
  with assms show ?thesis by (simp add: suggested_reorder_def)
next
  case True
  with assms obtain n q where n: "int_of_float (binary64 (a * 14)) = Inr n"
    and q: "qty_operand p (''unsupported operand type(s) for -: '' @ quoted ''int'' @ '' and '' @ quoted ''NoneType'') = Inr q"
    and k: "k = max 0 (max n 5 - q)"
    by (auto simp: suggested_reorder_def and_then_Inr Let_def)
  from n obtain x where x: "binary64 (a * 14) = Fin x" "n = trunc x"
    by (cases "binary64 (a * 14)") auto
  from q have "p_qty p = Some q" by (auto simp: qty_operand_def split: option.splits)
  with True x k show ?thesis by auto
qed

text \<open>
  \<^verbatim>\<open>ai_suggest\<close> answers for every product that has a stock count, when the count and
  the total sold are below \<open>2 ^ 1000\<close> in size: no float operation overflows there.
\<close>

lemma int_truediv_answers:
  assumes "\<bar>a\<bar> < 2 ^ 1000" and "1 \<le> b"
  shows "\<exists>x. int_truediv a b = Inr (Fin x) \<and> \<bar>x\<bar> \<le> 2 powi 1000"
proof -
  have b: "(1::rat) \<le> of_int b" using assms(2) by simp
  have "\<bar>of_int a / of_int b :: rat\<bar> = \<bar>of_int a\<bar> / of_int b" using b by simp
  also have "\<dots> \<le> \<bar>of_int a\<bar> / 1" using b by (intro divide_left_mono) simp_all
  also have "\<dots> = of_int \<bar>a\<bar>" by simp
  also have "\<dots> < of_int (2 ^ 1000)" using assms(1) by (simp only: of_int_less_iff)
  also have "\<dots> = 2 powi 1000" by simp
  finally have "\<bar>of_int a / of_int b :: rat\<bar> < 2 powi 1000" .
  from binary64_finite[OF this] obtain x where
    "binary64 (of_int a / of_int b) = Fin x" "\<bar>x\<bar> \<le> 2 powi 1000" by auto
  moreover have "b \<noteq> 0" using assms(2) by simp
  ultimately show ?thesis by (simp add: int_truediv_def)
qed

lemma float_of_int_answers:
  assumes "\<bar>q\<bar> < 2 ^ 1000"
  shows "\<exists>x. float_of_int q = Inr (Fin x)"
proof -
  have "\<bar>of_int q :: rat\<bar> = of_int \<bar>q\<bar>" by simp
  also have "\<dots> < of_int (2 ^ 1000)" using assms by (simp only: of_int_less_iff)
  also have "\<dots> = 2 powi 1000" by simp
  finally have "\<bar>of_int q :: rat\<bar> < 2 powi 1000" .
  from binary64_finite[OF this] obtain x where "binary64 (of_int q) = Fin x" by auto
  then show ?thesis by (simp add: float_of_int_def)
qed

lemma days_of_cover_answers:
  assumes "p_qty p = Some q" and "\<bar>q\<bar> < 2 ^ 1000"
  shows "\<exists>c. days_of_cover p (Fin a) = Inr c"
proof (cases "a = 0")
  case True
  then show ?thesis by (simp add: days_of_cover_def)
next
  case False
  from float_of_int_answers[OF assms(2)] obtain x where "float_of_int q = Inr (Fin x)" by blast
  with False assms(1) show ?thesis
    by (simp add: days_of_cover_def qty_operand_def and_then_def)
qed

lemma suggested_reorder_answers:
  assumes "p_qty p = Some q" and "\<bar>a\<bar> \<le> 2 powi 1000"
  shows "\<exists>k. suggested_reorder p (Fin a) = Inr k"
proof (cases "0 < a")
  case False
  then show ?thesis by (simp add: suggested_reorder_def)
next
  case True
  have "\<bar>a * 14\<bar> = \<bar>a\<bar> * 14" by simp
  also have "\<dots> \<le> 2 powi 1000 * 14" using assms(2) by simp
  also have "\<dots> < 2 powi 1000 * (2 powi 4 :: rat)" by simp
  also have "\<dots> = 2 powi 1004" by (simp add: power_int_add[symmetric])
  finally have "\<bar>a * 14\<bar> < 2 powi 1004" .
  from binary64_finite[OF this] obtain x where "binary64 (a * 14) = Fin x" by auto
  with True assms(1) show ?thesis
    by (simp add: suggested_reorder_def qty_operand_def and_then_def)
qed

lemma reorder_answer_exists:
  assumes "stripped (dict_get data ''barcode'') = Inr barcode" and "barcode \<noteq> []"
      and "py_int env (dict_get_default data ''lookback_days'' (JInt 14)) = Inr n"
      and "find_product (Some barcode) (products d) = Some p"
      and "p_qty p = Some q" and "\<bar>q\<bar> < 2 ^ 1000"
      and "\<bar>sum_list (map l_qty (filter (\<lambda>l. l_barcode l = Some barcode) (transaction_lines d)))\<bar>
             < 2 ^ 1000"
  shows "\<exists>r. ai_suggest env d data = Inr (Ok200 r)"
proof -
  let ?total = "sum_list (map l_qty (filter (\<lambda>l. l_barcode l = Some barcode) (transaction_lines d)))"
  have "1 \<le> max 1 n" by simp
  from int_truediv_answers[OF assms(7) this] obtain a where
    avg: "int_truediv ?total (max 1 n) = Inr (Fin a)" and a: "\<bar>a\<bar> \<le> 2 powi 1000" by blast
  from days_of_cover_answers[OF assms(5,6)] obtain c where c: "days_of_cover p (Fin a) = Inr c"
    by blast
  from suggested_reorder_answers[OF assms(5) a] obtain k where
    k: "suggested_reorder p (Fin a) = Inr k" by blast
  show ?thesis
    using assms(1-4) avg c k by (simp add: ai_suggest_def and_then_def Let_def)
qed

text \<open>
  C9, as the code has it. When \<^verbatim>\<open>ai_suggest\<close> answers for a product, the total is the
  sum of the quantities of all lines of the ledger with the product's barcode; the
  average daily rate is that total divided by \<^verbatim>\<open>max(1, lookback_days)\<close>, as a float.
  When the rate is positive, the target is \<^verbatim>\<open>max(int(avg_daily * 14), 5)\<close>, the float
  product truncated to an int, and the suggestion is \<^verbatim>\<open>max(0, target - qty)\<close>; when
  the rate is not positive the suggestion is 0. In particular a product whose total is
  not positive gets the suggestion 0.
\<close>

theorem reorder_heuristic:
  assumes "ai_suggest env d data = Inr (Ok200 r)"
  shows "\<exists>barcode n p a.
           stripped (dict_get data ''barcode'') = Inr barcode \<and>
           py_int env (dict_get_default data ''lookback_days'' (JInt 14)) = Inr n \<and>
           find_product (Some barcode) (products d) = Some p \<and>
           total_sold_in_history r =
             sum_list (map l_qty (filter (\<lambda>l. l_barcode l = Some barcode) (transaction_lines d))) \<and>
           binary64 (of_int (total_sold_in_history r) / of_int (max 1 n)) = Fin a \<and>
           avg_daily_estimate r = Fin a \<and>
           (if 0 < a
            then \<exists>x q. binary64 (a * 14) = Fin x \<and> p_qty p = Some q \<and>
                       suggested_reorder_qty r = max 0 (max (trunc x) 5 - q)
            else suggested_reorder_qty r = 0) \<and>
           (total_sold_in_history r \<le> 0 \<longrightarrow> suggested_reorder_qty r = 0)"
proof -
  from assms obtain barcode n where
    b: "stripped (dict_get data ''barcode'') = Inr barcode"
    and n: "py_int env (dict_get_default data ''lookback_days'' (JInt 14)) = Inr n"
    and rest: "(if barcode = [] then Inr (Refused 400 ''barcode required'')
       else (case find_product (Some barcode) (products d) of
               None \<Rightarrow> Inr (Refused 404 ''product not found'')
             | Some prod0 \<Rightarrow>
                 (let lines = filter (\<lambda>l. l_barcode l = Some barcode) (transaction_lines d);
                      total_sold = sum_list (map l_qty lines)
                  in and_then (int_truediv total_sold (max 1 n)) (\<lambda>avg_daily.
                     and_then (days_of_cover prod0 avg_daily) (\<lambda>cover.
                     and_then (suggested_reorder prod0 avg_daily) (\<lambda>reorder.
                       Inr (Ok200 \<lparr>s_product = prod0, total_sold_in_history = total_sold,
                                   avg_daily_estimate = avg_daily,
                                   s_days_of_cover = (if cover = PInf then None else Some (round1 cover)),
                                   suggested_reorder_qty = reorder\<rparr>))))))) = Inr (Ok200 r)"
    unfolding ai_suggest_def and_then_Inr by blast
  from rest obtain p where p: "find_product (Some barcode) (products d) = Some p"
    by (auto split: if_splits option.splits)
  let ?total = "sum_list (map l_qty (filter (\<lambda>l. l_barcode l = Some barcode) (transaction_lines d)))"
  from rest p obtain avg k where
    avg: "int_truediv ?total (max 1 n) = Inr avg"
    and k: "suggested_reorder p avg = Inr k"
    and r: "total_sold_in_history r = ?total" "avg_daily_estimate r = avg" "suggested_reorder_qty r = k"
    by (auto simp: and_then_Inr Let_def split: if_splits)
  from int_truediv_Inr[OF avg] obtain a where
    a: "avg = Fin a" "binary64 (of_int ?total / of_int (max 1 n)) = Fin a" by blast
  from suggested_reorder_Fin[OF k[unfolded a(1)]] have
    c: "if 0 < a
        then \<exists>x q. binary64 (a * 14) = Fin x \<and> p_qty p = Some q \<and> k = max 0 (max (trunc x) 5 - q)
        else k = 0" .
  have z: "?total \<le> 0 \<longrightarrow> k = 0"
  proof
    assume "?total \<le> 0"
    then have "(of_int ?total / of_int (max 1 n) :: rat) \<le> 0"
      by (simp add: divide_le_0_iff)
    from binary64_nonpos[OF a(2) this] c show "k = 0" by (simp split: if_splits)
  qed
  have "stripped (dict_get data ''barcode'') = Inr barcode \<and>
           py_int env (dict_get_default data ''lookback_days'' (JInt 14)) = Inr n \<and>
           find_product (Some barcode) (products d) = Some p \<and>
           total_sold_in_history r =
             sum_list (map l_qty (filter (\<lambda>l. l_barcode l = Some barcode) (transaction_lines d))) \<and>
           binary64 (of_int (total_sold_in_history r) / of_int (max 1 n)) = Fin a \<and>
           avg_daily_estimate r = Fin a \<and>
           (if 0 < a
            then \<exists>x q. binary64 (a * 14) = Fin x \<and> p_qty p = Some q \<and>
                       suggested_reorder_qty r = max 0 (max (trunc x) 5 - q)
            else suggested_reorder_qty r = 0) \<and>
           (total_sold_in_history r \<le> 0 \<longrightarrow> suggested_reorder_qty r = 0)"
    unfolding r using b n p a(2) a(1) c z by (intro conjI) simp_all
  then show ?thesis by blast
qed

theorem reorder_heuristic_witness:
  "ai_suggest example_env sold_db [(''barcode'', JStr '' 111 '')] =
     Inr (Ok200 \<lparr>s_product = example_product, total_sold_in_history = 61,
                 avg_daily_estimate = Fin (4905706736957147 / 1125899906842624),
                 s_days_of_cover = Some (Fin (2589569785738035 / 1125899906842624)),
                 suggested_reorder_qty = 50\<rparr>) \<and>
   (\<exists>a. binary64 (of_int 61 / of_int (max 1 14)) = Fin a \<and> 0 < a)"
proof -
  have h: "ai_suggest example_env sold_db [(''barcode'', JStr '' 111 '')] =
     Inr (Ok200 \<lparr>s_product = example_product, total_sold_in_history = 61,
                 avg_daily_estimate = Fin (4905706736957147 / 1125899906842624),
                 s_days_of_cover = Some (Fin (2589569785738035 / 1125899906842624)),
                 suggested_reorder_qty = 50\<rparr>)"
    by code_simp
  have n: "py_int example_env (dict_get_default [(''barcode'', JStr '' 111 '')] ''lookback_days'' (JInt 14))
             = Inr 14"
    by (simp add: dict_get_default_def)
  from reorder_heuristic[OF h] n
  have "\<exists>a. binary64 (of_int 61 / of_int (max 1 14)) = Fin a \<and>
             Fin (4905706736957147 / 1125899906842624) = Fin a"
    by auto
  then have "\<exists>a. binary64 (of_int 61 / of_int (max 1 14)) = Fin a \<and> 0 < a"
    by auto
  with h show ?thesis by simp
qed

text \<open>
  C9 as stated fails for a product without sales and with less than 5 in stock: the
  rate is 0, the code suggests 0, and the formula of the specification gives
  \<open>max 0 (max 0 5 - 2) = 3\<close>.
\<close>

theorem reorder_counterexample:
  "ai_suggest example_env (example_db\<lparr>products := [example_product\<lparr>p_qty := Some 2\<rparr>]\<rparr>)
     [(''barcode'', JStr ''111''), (''lookback_days'', JInt 14)] =
     Inr (Ok200 \<lparr>s_product = example_product\<lparr>p_qty := Some 2\<rparr>, total_sold_in_history = 0,
                 avg_daily_estimate = Fin 0, s_days_of_cover = None, suggested_reorder_qty = 0\<rparr>) \<and>
   spec_reorder 0 14 2 = 3"
  by code_simp

end
